theory Spec2Isabelle
  imports Complex_Main
begin

section \<open>The notebook \<open>examples/ejemplo-mlflow.ipynb\<close>\<close>

text \<open>
  The repository is one Jupyter notebook. Its code cells call scikit-learn, numpy, mlflow
  and the IPython shell escape, and do nothing else: no loop, no branch, no arithmetic.
  The embedding below is the notebook's code cells, statement for statement, over a
  library that is a parameter: a record of functions, one for each library entry point
  the notebook calls. Each library function reads and changes a world of type \<open>'w\<close> (the
  tracking store on disk, the random number generator, the autologging switch) the
  notebook never looks into, and each may raise.

  What the notebook does is then the sequence of library calls it makes, with their
  arguments and what each returned or raised: the trace. What \<open>mlflow.autolog()\<close> makes the
  library record on its own during a later \<open>fit\<close> happens inside the library, in the world,
  and is no call of the notebook.

  Not modelled as calls: the imports of cell 1, the constructors \<open>KMeans(...)\<close> and
  \<open>DBSCAN(...)\<close>, which only store their arguments, and the attribute reads \<open>db.data\<close>,
  \<open>db.target\<close> and \<open>trained_model.labels_\<close>.
\<close>

subsection \<open>Values\<close>

type_synonym row = "real list"
type_synonym ndarray = "row list"
type_synonym labels = "int list"

text \<open>The two estimators the notebook constructs, with the keyword arguments it passes.
  \<open>KMeans(n_clusters=2)\<close> leaves \<open>random_state\<close> at its default \<open>None\<close>.\<close>

datatype estimator =
    KMeans (n_clusters: int) (random_state: "int option")
  | DBSCAN (eps: real) (min_samples: int)

text \<open>What \<open>fit\<close> returns: an object whose attribute \<open>labels_\<close> is read by \<open>labels_of\<close>.\<close>

datatype fitted = Fitted (estimator_of: estimator) (labels_of: labels)

text \<open>The literals passed to \<open>mlflow.log_param\<close>: \<open>2\<close>, \<open>3\<close>, \<open>5\<close> and \<open>0.5\<close>.\<close>

datatype pyval = PyInt int | PyFloat real

datatype error = Exception string

subsection \<open>Library calls and the trace\<close>

datatype call =
    Load_iris
  | Autolog
  | Fit_predict estimator ndarray
  | Fit estimator ndarray
  | Silhouette_score ndarray labels
  | Davies_bouldin_score ndarray labels
  | Create_experiment string
  | Start_run string string
  | Exit_run "error option"
  | Log_param string pyval
  | Log_metric string real
  | Log_model fitted string ndarray
  | End_run
  | Getitem ndarray nat
  | Np_array "row list"
  | Shell string

datatype retval =
    RNone
  | RFloat real
  | RStr string
  | RBool bool
  | RLabels labels
  | RFitted fitted
  | RBunch ndarray labels
  | RArray ndarray
  | RRow row

datatype outcome = Returned retval | Raised error

type_synonym event = "call \<times> outcome"

record 'w nb_state =
  world :: 'w
  trace :: "event list"

type_synonym ('w, 'a) libcall = "'w \<Rightarrow> (error + 'a) \<times> 'w"

text \<open>The library, one field for each entry point. \<open>mlflow_start_run\<close> is
  \<open>mlflow.start_run(...)\<close> together with the \<open>__enter__\<close> of the object it returns, and
  \<open>mlflow_exit_run\<close> is that object's \<open>__exit__\<close>: it is given the exception that left the
  block, if any, and its result says whether the exception is swallowed.\<close>

record 'w library =
  sklearn_load_iris :: "('w, ndarray \<times> labels) libcall"
  mlflow_autolog :: "('w, unit) libcall"
  sklearn_fit_predict :: "estimator \<Rightarrow> ndarray \<Rightarrow> ('w, labels) libcall"
  sklearn_fit :: "estimator \<Rightarrow> ndarray \<Rightarrow> ('w, fitted) libcall"
  sklearn_silhouette_score :: "ndarray \<Rightarrow> labels \<Rightarrow> ('w, real) libcall"
  sklearn_davies_bouldin_score :: "ndarray \<Rightarrow> labels \<Rightarrow> ('w, real) libcall"
  mlflow_create_experiment :: "string \<Rightarrow> ('w, string) libcall"
  mlflow_start_run :: "string \<Rightarrow> string \<Rightarrow> ('w, unit) libcall"
  mlflow_exit_run :: "error option \<Rightarrow> ('w, bool) libcall"
  mlflow_log_param :: "string \<Rightarrow> pyval \<Rightarrow> ('w, unit) libcall"
  mlflow_log_metric :: "string \<Rightarrow> real \<Rightarrow> ('w, unit) libcall"
  mlflow_sklearn_log_model :: "fitted \<Rightarrow> string \<Rightarrow> ndarray \<Rightarrow> ('w, unit) libcall"
  mlflow_end_run :: "('w, unit) libcall"
  numpy_getitem :: "ndarray \<Rightarrow> nat \<Rightarrow> ('w, row) libcall"
  numpy_array :: "row list \<Rightarrow> ('w, ndarray) libcall"
  ipython_system :: "string \<Rightarrow> ('w, unit) libcall"

subsection \<open>Statements in sequence, exceptions\<close>

type_synonym ('w, 'a) nb = "'w nb_state \<Rightarrow> (error + 'a) \<times> 'w nb_state"

definition ret :: "'a \<Rightarrow> ('w, 'a) nb" where
  "ret a s = (Inr a, s)"

definition throw :: "error \<Rightarrow> ('w, 'a) nb" where
  "throw e s = (Inl e, s)"

text \<open>One statement after another: an exception in the first skips the rest.\<close>

definition andthen :: "('w, 'a) nb \<Rightarrow> ('a \<Rightarrow> ('w, 'b) nb) \<Rightarrow> ('w, 'b) nb" where
  "andthen m f s = (case m s of (Inl e, s') \<Rightarrow> (Inl e, s') | (Inr a, s') \<Rightarrow> f a s')"

text \<open>A library call: the call and its outcome are appended to the trace.\<close>

definition invoke :: "call \<Rightarrow> ('r \<Rightarrow> retval) \<Rightarrow> ('w, 'r) libcall \<Rightarrow> ('w, 'r) nb" where
  "invoke c wrap f s =
     (case f (world s) of
        (Inl e, w') \<Rightarrow> (Inl e, \<lparr>world = w', trace = trace s @ [(c, Raised e)]\<rparr>)
      | (Inr r, w') \<Rightarrow> (Inr r, \<lparr>world = w', trace = trace s @ [(c, Returned (wrap r))]\<rparr>))"

definition load_iris :: "'w library \<Rightarrow> ('w, ndarray \<times> labels) nb" where
  "load_iris lib = invoke Load_iris (\<lambda>db. RBunch (fst db) (snd db)) (sklearn_load_iris lib)"

definition autolog :: "'w library \<Rightarrow> ('w, unit) nb" where
  "autolog lib = invoke Autolog (\<lambda>_. RNone) (mlflow_autolog lib)"

definition fit_predict :: "'w library \<Rightarrow> estimator \<Rightarrow> ndarray \<Rightarrow> ('w, labels) nb" where
  "fit_predict lib est X = invoke (Fit_predict est X) RLabels (sklearn_fit_predict lib est X)"

definition fit :: "'w library \<Rightarrow> estimator \<Rightarrow> ndarray \<Rightarrow> ('w, fitted) nb" where
  "fit lib est X = invoke (Fit est X) RFitted (sklearn_fit lib est X)"

definition silhouette_score :: "'w library \<Rightarrow> ndarray \<Rightarrow> labels \<Rightarrow> ('w, real) nb" where
  "silhouette_score lib X l = invoke (Silhouette_score X l) RFloat (sklearn_silhouette_score lib X l)"

definition davies_bouldin_score :: "'w library \<Rightarrow> ndarray \<Rightarrow> labels \<Rightarrow> ('w, real) nb" where
  "davies_bouldin_score lib X l =
     invoke (Davies_bouldin_score X l) RFloat (sklearn_davies_bouldin_score lib X l)"

definition create_experiment :: "'w library \<Rightarrow> string \<Rightarrow> ('w, string) nb" where
  "create_experiment lib name = invoke (Create_experiment name) RStr (mlflow_create_experiment lib name)"

definition log_param :: "'w library \<Rightarrow> string \<Rightarrow> pyval \<Rightarrow> ('w, unit) nb" where
  "log_param lib k v = invoke (Log_param k v) (\<lambda>_. RNone) (mlflow_log_param lib k v)"

definition log_metric :: "'w library \<Rightarrow> string \<Rightarrow> real \<Rightarrow> ('w, unit) nb" where
  "log_metric lib k v = invoke (Log_metric k v) (\<lambda>_. RNone) (mlflow_log_metric lib k v)"

definition log_model :: "'w library \<Rightarrow> fitted \<Rightarrow> string \<Rightarrow> ndarray \<Rightarrow> ('w, unit) nb" where
  "log_model lib m path ex = invoke (Log_model m path ex) (\<lambda>_. RNone) (mlflow_sklearn_log_model lib m path ex)"

definition end_run :: "'w library \<Rightarrow> ('w, unit) nb" where
  "end_run lib = invoke End_run (\<lambda>_. RNone) (mlflow_end_run lib)"

definition getitem :: "'w library \<Rightarrow> ndarray \<Rightarrow> nat \<Rightarrow> ('w, row) nb" where
  "getitem lib X i = invoke (Getitem X i) RRow (numpy_getitem lib X i)"

definition np_array :: "'w library \<Rightarrow> row list \<Rightarrow> ('w, ndarray) nb" where
  "np_array lib rows = invoke (Np_array rows) RArray (numpy_array lib rows)"

definition shell :: "'w library \<Rightarrow> string \<Rightarrow> ('w, unit) nb" where
  "shell lib cmd = invoke (Shell cmd) (\<lambda>_. RNone) (ipython_system lib cmd)"

text \<open>
  \<open>with mlflow.start_run(experiment_id=eid, run_name=name): body\<close>. If entering raises,
  the body and the exit are skipped. When the body ends normally the exit is called with
  no exception and its result is ignored. When the body raises \<open>e\<close> the exit is called with
  \<open>e\<close>: a true result swallows the exception, a false one re-raises it, and an exception
  raised by the exit itself replaces it.
\<close>

definition with_run :: "'w library \<Rightarrow> string \<Rightarrow> string \<Rightarrow> ('w, unit) nb \<Rightarrow> ('w, unit) nb" where
  "with_run lib eid name body =
     andthen (invoke (Start_run eid name) (\<lambda>_. RNone) (mlflow_start_run lib eid name)) (\<lambda>_ s.
       case body s of
         (Inr u, s1) \<Rightarrow>
           andthen (invoke (Exit_run None) RBool (mlflow_exit_run lib None)) (\<lambda>_. ret ()) s1
       | (Inl e, s1) \<Rightarrow>
           andthen (invoke (Exit_run (Some e)) RBool (mlflow_exit_run lib (Some e)))
             (\<lambda>swallow. if swallow then ret () else throw e) s1)"

subsection \<open>The code cells\<close>

text \<open>The cells are numbered by their position in the notebook file, from 0, the markdown
  cells counted: the code cells are 1 (the imports), 3, 5, 6, 8, 9, 10 and 12.\<close>

text \<open>Cell 3: \<open>db = load_iris(); features = db.data; target = db.target\<close>.\<close>

definition cell_3 :: "'w library \<Rightarrow> ('w, ndarray \<times> labels) nb" where
  "cell_3 lib =
     andthen (load_iris lib) (\<lambda>db.
     let features = fst db; target = snd db in
     ret (features, target))"

text \<open>Cell 5: \<open>mlflow.autolog()\<close>, then DBSCAN with \<open>eps=0.5, min_samples=5\<close>.\<close>

definition cell_5 :: "'w library \<Rightarrow> ndarray \<Rightarrow> ('w, labels) nb" where
  "cell_5 lib features =
     andthen (autolog lib) (\<lambda>_.
     let dbscan = DBSCAN (1/2) 5 in
     fit_predict lib dbscan features)"

text \<open>Cell 6: KMeans with \<open>n_clusters=3, random_state=42\<close>.\<close>

definition cell_6 :: "'w library \<Rightarrow> ndarray \<Rightarrow> ('w, labels) nb" where
  "cell_6 lib features =
     (let kmeans = KMeans 3 (Some 42) in
      fit_predict lib kmeans features)"

text \<open>Cell 8: the experiment is created, then the run \<open>Kmeans - K=2\<close>.\<close>

definition run_k2 :: "'w library \<Rightarrow> ndarray \<Rightarrow> ('w, unit) nb" where
  "run_k2 lib features =
     (let modelo_clusters = KMeans 2 None in
      andthen (fit lib modelo_clusters features) (\<lambda>trained_model.
      let cluster_labels = labels_of trained_model in
      andthen (silhouette_score lib features cluster_labels) (\<lambda>score.
      andthen (log_param lib ''value_of_k'' (PyInt 2)) (\<lambda>_.
      andthen (log_metric lib ''silhoutte_score'' score) (\<lambda>_.
      andthen (getitem lib features 0) (\<lambda>row0.
      andthen (np_array lib [row0]) (\<lambda>input_example.
      andthen (log_model lib trained_model ''Clustering_Model'' input_example) (\<lambda>_.
      end_run lib))))))))"

definition cell_8 :: "'w library \<Rightarrow> ndarray \<Rightarrow> ('w, string) nb" where
  "cell_8 lib features =
     (let exp_name = ''Clustering-Ejemplos'' in
      andthen (create_experiment lib exp_name) (\<lambda>exp_id.
      andthen (with_run lib exp_id ''Kmeans - K=2'' (run_k2 lib features)) (\<lambda>_.
      ret exp_id)))"

text \<open>Cell 9: the run \<open>Kmeans - K=3\<close>, with a second score.\<close>

definition run_k3 :: "'w library \<Rightarrow> ndarray \<Rightarrow> ('w, unit) nb" where
  "run_k3 lib features =
     (let modelo_clusters = KMeans 3 None in
      andthen (fit lib modelo_clusters features) (\<lambda>trained_model.
      let cluster_labels = labels_of trained_model in
      andthen (silhouette_score lib features cluster_labels) (\<lambda>score.
      andthen (davies_bouldin_score lib features cluster_labels) (\<lambda>score_2.
      andthen (log_param lib ''value_of_k'' (PyInt 3)) (\<lambda>_.
      andthen (log_metric lib ''silhoutte_score'' score) (\<lambda>_.
      andthen (log_metric lib ''davies_bouldin_score'' score_2) (\<lambda>_.
      andthen (getitem lib features 0) (\<lambda>row0.
      andthen (np_array lib [row0]) (\<lambda>input_example.
      andthen (log_model lib trained_model ''Clustering_Model'' input_example) (\<lambda>_.
      end_run lib))))))))))"

definition cell_9 :: "'w library \<Rightarrow> string \<Rightarrow> ndarray \<Rightarrow> ('w, unit) nb" where
  "cell_9 lib exp_id features = with_run lib exp_id ''Kmeans - K=3'' (run_k3 lib features)"

text \<open>Cell 10: the run \<open>DBSCAN\<close>.\<close>

definition run_dbscan :: "'w library \<Rightarrow> ndarray \<Rightarrow> ('w, unit) nb" where
  "run_dbscan lib features =
     (let modelo_clusters = DBSCAN (1/2) 5 in
      andthen (fit lib modelo_clusters features) (\<lambda>trained_model.
      let cluster_labels = labels_of trained_model in
      andthen (silhouette_score lib features cluster_labels) (\<lambda>score.
      andthen (log_param lib ''min_samples'' (PyInt 5)) (\<lambda>_.
      andthen (log_param lib ''eps'' (PyFloat (1/2))) (\<lambda>_.
      andthen (log_metric lib ''silhoutte_score'' score) (\<lambda>_.
      andthen (getitem lib features 0) (\<lambda>row0.
      andthen (np_array lib [row0]) (\<lambda>input_example.
      andthen (log_model lib trained_model ''Clustering_Model'' input_example) (\<lambda>_.
      end_run lib)))))))))"

definition cell_10 :: "'w library \<Rightarrow> string \<Rightarrow> ndarray \<Rightarrow> ('w, unit) nb" where
  "cell_10 lib exp_id features = with_run lib exp_id ''DBSCAN'' (run_dbscan lib features)"

text \<open>Cell 12: \<open>!mlflow ui\<close>.\<close>

definition cell_12 :: "'w library \<Rightarrow> ('w, unit) nb" where
  "cell_12 lib = shell lib ''mlflow ui''"

text \<open>The cells in the notebook's order; a cell that raises stops the execution.\<close>

definition notebook :: "'w library \<Rightarrow> ('w, unit) nb" where
  "notebook lib =
     andthen (cell_3 lib) (\<lambda>(features, target).
     andthen (cell_5 lib features) (\<lambda>_.
     andthen (cell_6 lib features) (\<lambda>_.
     andthen (cell_8 lib features) (\<lambda>exp_id.
     andthen (cell_9 lib exp_id features) (\<lambda>_.
     andthen (cell_10 lib exp_id features) (\<lambda>_.
     cell_12 lib))))))"

text \<open>An execution of all cells from a fresh kernel, in the world \<open>w\<close>: how it ended,
  and its trace.\<close>

definition fresh :: "'w \<Rightarrow> 'w nb_state" where
  "fresh w = \<lparr>world = w, trace = []\<rparr>"

definition run_all :: "'w library \<Rightarrow> 'w \<Rightarrow> (error + unit) \<times> event list" where
  "run_all lib w = (case notebook lib (fresh w) of (r, s) \<Rightarrow> (r, trace s))"

section \<open>Reading a trace\<close>

text \<open>The three runs the notebook names.\<close>

definition named_runs :: "string list" where
  "named_runs = [''Kmeans - K=2'', ''Kmeans - K=3'', ''DBSCAN'']"

text \<open>A library call that raised.\<close>

definition raised :: "event \<Rightarrow> bool" where
  "raised ev = (case snd ev of Raised _ \<Rightarrow> True | Returned _ \<Rightarrow> False)"

definition error_of :: "event \<Rightarrow> error option" where
  "error_of ev = (case snd ev of Raised e \<Rightarrow> Some e | Returned _ \<Rightarrow> None)"

fun is_start :: "string \<Rightarrow> call \<Rightarrow> bool" where
  "is_start name (Start_run eid n) = (n = name)"
| "is_start name _ = False"

text \<open>A run is bounded in the trace by its own \<open>start_run\<close> and by the first call after it
  that ends or leaves a run or starts another: \<open>mlflow.end_run()\<close>, the \<open>__exit__\<close> of the
  \<open>with\<close> block, or a \<open>start_run\<close>.\<close>

fun boundary :: "call \<Rightarrow> bool" where
  "boundary End_run = True"
| "boundary (Exit_run x) = True"
| "boundary (Start_run eid n) = True"
| "boundary _ = False"

definition after_start :: "string \<Rightarrow> event list \<Rightarrow> event list" where
  "after_start name tr = tl (dropWhile (\<lambda>ev. \<not> is_start name (fst ev)) tr)"

text \<open>The events of the run called \<open>name\<close>: the calls made after its \<open>start_run\<close> and before
  that boundary. Nothing of a later run, and nothing after the run's own \<open>__exit__\<close>, is
  among them.\<close>

definition run_events :: "string \<Rightarrow> event list \<Rightarrow> event list" where
  "run_events name tr = takeWhile (\<lambda>ev. \<not> boundary (fst ev)) (after_start name tr)"

text \<open>The run called \<open>name\<close> is ended by the notebook: the boundary of its events is a call
  of \<open>mlflow.end_run()\<close> that returned.\<close>

definition run_ended :: "string \<Rightarrow> event list \<Rightarrow> bool" where
  "run_ended name tr =
     (case dropWhile (\<lambda>ev. \<not> boundary (fst ev)) (after_start name tr) of
        [] \<Rightarrow> False
      | ev # rest \<Rightarrow> fst ev = End_run \<and> \<not> raised ev)"

fun started_runs :: "event list \<Rightarrow> string list" where
  "started_runs [] = []"
| "started_runs ((Start_run eid n, out) # evs) = n # started_runs evs"
| "started_runs (ev # evs) = started_runs evs"

fun logged_params :: "event list \<Rightarrow> (string \<times> pyval) list" where
  "logged_params [] = []"
| "logged_params ((Log_param k v, out) # evs) = (k, v) # logged_params evs"
| "logged_params (ev # evs) = logged_params evs"

fun logged_metrics :: "event list \<Rightarrow> (string \<times> real) list" where
  "logged_metrics [] = []"
| "logged_metrics ((Log_metric k v, out) # evs) = (k, v) # logged_metrics evs"
| "logged_metrics (ev # evs) = logged_metrics evs"

fun logged_models :: "event list \<Rightarrow> (fitted \<times> string) list" where
  "logged_models [] = []"
| "logged_models ((Log_model m path ex, out) # evs) = (m, path) # logged_models evs"
| "logged_models (ev # evs) = logged_models evs"

fun fitted_estimators :: "event list \<Rightarrow> estimator list" where
  "fitted_estimators [] = []"
| "fitted_estimators ((Fit est X, out) # evs) = est # fitted_estimators evs"
| "fitted_estimators (ev # evs) = fitted_estimators evs"

fun shell_commands :: "event list \<Rightarrow> string list" where
  "shell_commands [] = []"
| "shell_commands ((Shell cmd, out) # evs) = cmd # shell_commands evs"
| "shell_commands (ev # evs) = shell_commands evs"

text \<open>The labels of the models that \<open>fit\<close> returned.\<close>

fun fitted_labels :: "event list \<Rightarrow> labels list" where
  "fitted_labels [] = []"
| "fitted_labels ((Fit est X, Returned (RFitted m)) # evs) = labels_of m # fitted_labels evs"
| "fitted_labels (ev # evs) = fitted_labels evs"

text \<open>Every call of \<open>fit_predict\<close> or \<open>fit\<close> on a KMeans, with the estimator as constructed.\<close>

fun kmeans_calls :: "event list \<Rightarrow> (string \<times> estimator) list" where
  "kmeans_calls [] = []"
| "kmeans_calls ((Fit_predict (KMeans n seed) X, out) # evs) =
     (''fit_predict'', KMeans n seed) # kmeans_calls evs"
| "kmeans_calls ((Fit (KMeans n seed) X, out) # evs) = (''fit'', KMeans n seed) # kmeans_calls evs"
| "kmeans_calls (ev # evs) = kmeans_calls evs"

text \<open>What \<open>fit_predict\<close> or \<open>fit\<close> returned on a KMeans that was given a \<open>random_state\<close>.\<close>

fun seeded_kmeans_results :: "event list \<Rightarrow> outcome list" where
  "seeded_kmeans_results [] = []"
| "seeded_kmeans_results ((Fit_predict (KMeans n (Some seed)) X, out) # evs) =
     out # seeded_kmeans_results evs"
| "seeded_kmeans_results ((Fit (KMeans n (Some seed)) X, out) # evs) =
     out # seeded_kmeans_results evs"
| "seeded_kmeans_results (ev # evs) = seeded_kmeans_results evs"

text \<open>The name under which the source calls each library function.\<close>

fun api_name :: "call \<Rightarrow> string" where
  "api_name Load_iris = ''load_iris''"
| "api_name Autolog = ''autolog''"
| "api_name (Fit_predict est X) = ''fit_predict''"
| "api_name (Fit est X) = ''fit''"
| "api_name (Silhouette_score X l) = ''silhouette_score''"
| "api_name (Davies_bouldin_score X l) = ''davies_bouldin_score''"
| "api_name (Create_experiment name) = ''create_experiment''"
| "api_name (Start_run eid name) = ''start_run''"
| "api_name (Exit_run x) = ''__exit__''"
| "api_name (Log_param k v) = ''log_param''"
| "api_name (Log_metric k v) = ''log_metric''"
| "api_name (Log_model m path ex) = ''log_model''"
| "api_name End_run = ''end_run''"
| "api_name (Getitem X i) = ''__getitem__''"
| "api_name (Np_array rows) = ''array''"
| "api_name (Shell cmd) = ''system''"

definition api_calls :: "event list \<Rightarrow> string list" where
  "api_calls tr = map (\<lambda>ev. api_name (fst ev)) tr"

definition logged_values :: "event list \<Rightarrow> string list" where
  "logged_values tr =
     filter (\<lambda>n. n = ''log_param'' \<or> n = ''log_metric'' \<or> n = ''log_model'') (api_calls tr)"

definition score_calls :: "event list \<Rightarrow> string list" where
  "score_calls tr =
     filter (\<lambda>n. n = ''silhouette_score'' \<or> n = ''davies_bouldin_score'') (api_calls tr)"

text \<open>A shell command line split at its blanks.\<close>

fun words_from :: "string \<Rightarrow> string \<Rightarrow> string list" where
  "words_from acc [] = (if acc = [] then [] else [rev acc])"
| "words_from acc (c # cs) =
     (if c = CHR '' '' then (if acc = [] then words_from [] cs else rev acc # words_from [] cs)
      else words_from (c # acc) cs)"

definition argv :: "string \<Rightarrow> string list" where
  "argv cmd = words_from [] cmd"

text \<open>The keyword arguments an estimator was constructed with, and the constructor
  argument a logged parameter stands for: the notebook logs \<open>n_clusters\<close> as
  \<open>value_of_k\<close>.\<close>

fun ctor_arg :: "estimator \<Rightarrow> string \<Rightarrow> pyval option" where
  "ctor_arg (KMeans n seed) k =
     (if k = ''n_clusters'' then Some (PyInt n)
      else if k = ''random_state'' then map_option PyInt seed else None)"
| "ctor_arg (DBSCAN e m) k =
     (if k = ''eps'' then Some (PyFloat e)
      else if k = ''min_samples'' then Some (PyInt m) else None)"

definition arg_of_param :: "string \<Rightarrow> string" where
  "arg_of_param k = (if k = ''value_of_k'' then ''n_clusters'' else k)"

section \<open>A complete execution\<close>

text \<open>What the library returned to the notebook in an execution in which no call raised,
  and the trace of that execution.\<close>

record returns =
  got_features :: ndarray
  got_target :: labels
  got_labels_5 :: labels
  got_labels_6 :: labels
  got_exp_id :: string
  got_model_k2 :: fitted
  got_score_k2 :: real
  got_row_k2 :: row
  got_example_k2 :: ndarray
  got_exit_k2 :: bool
  got_model_k3 :: fitted
  got_score_k3 :: real
  got_score_2_k3 :: real
  got_row_k3 :: row
  got_example_k3 :: ndarray
  got_exit_k3 :: bool
  got_model_db :: fitted
  got_score_db :: real
  got_row_db :: row
  got_example_db :: ndarray
  got_exit_db :: bool

definition complete_trace :: "returns \<Rightarrow> event list" where
  "complete_trace a =
     [(Load_iris, Returned (RBunch (got_features a) (got_target a))),
      (Autolog, Returned RNone),
      (Fit_predict (DBSCAN (1/2) 5) (got_features a), Returned (RLabels (got_labels_5 a))),
      (Fit_predict (KMeans 3 (Some 42)) (got_features a), Returned (RLabels (got_labels_6 a))),
      (Create_experiment ''Clustering-Ejemplos'', Returned (RStr (got_exp_id a))),
      (Start_run (got_exp_id a) ''Kmeans - K=2'', Returned RNone),
      (Fit (KMeans 2 None) (got_features a), Returned (RFitted (got_model_k2 a))),
      (Silhouette_score (got_features a) (labels_of (got_model_k2 a)),
         Returned (RFloat (got_score_k2 a))),
      (Log_param ''value_of_k'' (PyInt 2), Returned RNone),
      (Log_metric ''silhoutte_score'' (got_score_k2 a), Returned RNone),
      (Getitem (got_features a) 0, Returned (RRow (got_row_k2 a))),
      (Np_array [got_row_k2 a], Returned (RArray (got_example_k2 a))),
      (Log_model (got_model_k2 a) ''Clustering_Model'' (got_example_k2 a), Returned RNone),
      (End_run, Returned RNone),
      (Exit_run None, Returned (RBool (got_exit_k2 a))),
      (Start_run (got_exp_id a) ''Kmeans - K=3'', Returned RNone),
      (Fit (KMeans 3 None) (got_features a), Returned (RFitted (got_model_k3 a))),
      (Silhouette_score (got_features a) (labels_of (got_model_k3 a)),
         Returned (RFloat (got_score_k3 a))),
      (Davies_bouldin_score (got_features a) (labels_of (got_model_k3 a)),
         Returned (RFloat (got_score_2_k3 a))),
      (Log_param ''value_of_k'' (PyInt 3), Returned RNone),
      (Log_metric ''silhoutte_score'' (got_score_k3 a), Returned RNone),
      (Log_metric ''davies_bouldin_score'' (got_score_2_k3 a), Returned RNone),
      (Getitem (got_features a) 0, Returned (RRow (got_row_k3 a))),
      (Np_array [got_row_k3 a], Returned (RArray (got_example_k3 a))),
      (Log_model (got_model_k3 a) ''Clustering_Model'' (got_example_k3 a), Returned RNone),
      (End_run, Returned RNone),
      (Exit_run None, Returned (RBool (got_exit_k3 a))),
      (Start_run (got_exp_id a) ''DBSCAN'', Returned RNone),
      (Fit (DBSCAN (1/2) 5) (got_features a), Returned (RFitted (got_model_db a))),
      (Silhouette_score (got_features a) (labels_of (got_model_db a)),
         Returned (RFloat (got_score_db a))),
      (Log_param ''min_samples'' (PyInt 5), Returned RNone),
      (Log_param ''eps'' (PyFloat (1/2)), Returned RNone),
      (Log_metric ''silhoutte_score'' (got_score_db a), Returned RNone),
      (Getitem (got_features a) 0, Returned (RRow (got_row_db a))),
      (Np_array [got_row_db a], Returned (RArray (got_example_db a))),
      (Log_model (got_model_db a) ''Clustering_Model'' (got_example_db a), Returned RNone),
      (End_run, Returned RNone),
      (Exit_run None, Returned (RBool (got_exit_db a))),
      (Shell ''mlflow ui'', Returned RNone)]"

section \<open>The calls of any execution\<close>

text \<open>The call sites of the notebook, with the literals the source passes.\<close>

fun notebook_call :: "call \<Rightarrow> bool" where
  "notebook_call Load_iris = True"
| "notebook_call Autolog = True"
| "notebook_call (Fit_predict est X) = (est = DBSCAN (1/2) 5 \<or> est = KMeans 3 (Some 42))"
| "notebook_call (Fit est X) = (est = KMeans 2 None \<or> est = KMeans 3 None \<or> est = DBSCAN (1/2) 5)"
| "notebook_call (Silhouette_score X l) = True"
| "notebook_call (Davies_bouldin_score X l) = True"
| "notebook_call (Create_experiment name) = (name = ''Clustering-Ejemplos'')"
| "notebook_call (Start_run eid name) = (name \<in> set named_runs)"
| "notebook_call (Exit_run x) = True"
| "notebook_call (Log_param k v) =
     ((k, v) \<in> set [(''value_of_k'', PyInt 2), (''value_of_k'', PyInt 3),
                    (''min_samples'', PyInt 5), (''eps'', PyFloat (1/2))])"
| "notebook_call (Log_metric k v) = (k = ''silhoutte_score'' \<or> k = ''davies_bouldin_score'')"
| "notebook_call (Log_model m path ex) = (path = ''Clustering_Model'')"
| "notebook_call End_run = True"
| "notebook_call (Getitem X i) = (i = 0)"
| "notebook_call (Np_array rows) = (length rows = 1)"
| "notebook_call (Shell cmd) = (cmd = ''mlflow ui'')"

text \<open>The library function behind each call, and an event that is an answer of the
  library: the outcome recorded is what the library function returned in some world.\<close>

definition answer :: "('r \<Rightarrow> retval) \<Rightarrow> (error + 'r) \<times> 'w \<Rightarrow> outcome \<times> 'w" where
  "answer wrap res =
     (case res of (Inl e, w') \<Rightarrow> (Raised e, w') | (Inr r, w') \<Rightarrow> (Returned (wrap r), w'))"

fun lib_apply :: "'w library \<Rightarrow> call \<Rightarrow> 'w \<Rightarrow> outcome \<times> 'w" where
  "lib_apply lib Load_iris w = answer (\<lambda>db. RBunch (fst db) (snd db)) (sklearn_load_iris lib w)"
| "lib_apply lib Autolog w = answer (\<lambda>_. RNone) (mlflow_autolog lib w)"
| "lib_apply lib (Fit_predict est X) w = answer RLabels (sklearn_fit_predict lib est X w)"
| "lib_apply lib (Fit est X) w = answer RFitted (sklearn_fit lib est X w)"
| "lib_apply lib (Silhouette_score X l) w = answer RFloat (sklearn_silhouette_score lib X l w)"
| "lib_apply lib (Davies_bouldin_score X l) w = answer RFloat (sklearn_davies_bouldin_score lib X l w)"
| "lib_apply lib (Create_experiment name) w = answer RStr (mlflow_create_experiment lib name w)"
| "lib_apply lib (Start_run eid name) w = answer (\<lambda>_. RNone) (mlflow_start_run lib eid name w)"
| "lib_apply lib (Exit_run x) w = answer RBool (mlflow_exit_run lib x w)"
| "lib_apply lib (Log_param k v) w = answer (\<lambda>_. RNone) (mlflow_log_param lib k v w)"
| "lib_apply lib (Log_metric k v) w = answer (\<lambda>_. RNone) (mlflow_log_metric lib k v w)"
| "lib_apply lib (Log_model m path ex) w = answer (\<lambda>_. RNone) (mlflow_sklearn_log_model lib m path ex w)"
| "lib_apply lib End_run w = answer (\<lambda>_. RNone) (mlflow_end_run lib w)"
| "lib_apply lib (Getitem X i) w = answer RRow (numpy_getitem lib X i w)"
| "lib_apply lib (Np_array rows) w = answer RArray (numpy_array lib rows w)"
| "lib_apply lib (Shell cmd) w = answer (\<lambda>_. RNone) (ipython_system lib cmd w)"

definition justified :: "'w library \<Rightarrow> event \<Rightarrow> bool" where
  "justified lib ev \<longleftrightarrow> (\<exists>w w'. lib_apply lib (fst ev) w = (snd ev, w'))"

definition notebook_event :: "'w library \<Rightarrow> event \<Rightarrow> bool" where
  "notebook_event lib ev \<longleftrightarrow> notebook_call (fst ev) \<and> justified lib ev"

text \<open>A computation that only appends events with a given property to the trace.\<close>

definition only_events :: "(event \<Rightarrow> bool) \<Rightarrow> ('w, 'a) nb \<Rightarrow> bool" where
  "only_events P m \<longleftrightarrow>
     (\<forall>s r s'. m s = (r, s') \<longrightarrow> (\<exists>new. trace s' = trace s @ new \<and> list_all P new))"

section \<open>Exceptions\<close>

text \<open>The exit of mlflow's run object hands the exception back: it never answers true
  when it is given one.\<close>

definition never_swallows :: "'w library \<Rightarrow> bool" where
  "never_swallows lib \<longleftrightarrow> (\<forall>e w. fst (mlflow_exit_run lib (Some e) w) \<noteq> Inr True)"

text \<open>After the first call that raised, nothing is called again, except that the exit of
  the enclosing \<open>with\<close> block is given the exception.\<close>

definition no_recovery :: "event list \<Rightarrow> bool" where
  "no_recovery tr =
     (case dropWhile (\<lambda>ev. \<not> raised ev) tr of
        [] \<Rightarrow> True
      | ev # rest \<Rightarrow>
          (case rest of
             [] \<Rightarrow> True
           | ev' # rest' \<Rightarrow> rest' = [] \<and> fst ev' = Exit_run (error_of ev)))"

text \<open>The events of a computation that ended with the exception \<open>e\<close>: calls that returned
  and then the call that raised \<open>e\<close>; or, through a \<open>with\<close> block, the call that raised and
  then the exit, which hands the exception back or raises \<open>e\<close> itself.\<close>

definition stops_at :: "event list \<Rightarrow> error \<Rightarrow> bool" where
  "stops_at new e \<longleftrightarrow> (\<exists>pre c. new = pre @ [(c, Raised e)] \<and> \<not> list_ex raised pre)"

definition unwinds :: "event list \<Rightarrow> error \<Rightarrow> bool" where
  "unwinds new e \<longleftrightarrow>
     stops_at new e \<or>
     (\<exists>pre c out e0. new = pre @ [(c, Raised e0), (Exit_run (Some e0), out)] \<and>
        \<not> list_ex raised pre \<and> (out = Raised e \<or> out = Returned (RBool False) \<and> e = e0))"

definition straight :: "('w, 'a) nb \<Rightarrow> bool" where
  "straight m \<longleftrightarrow>
     (\<forall>s r s'. m s = (r, s') \<longrightarrow>
        (\<exists>new. trace s' = trace s @ new \<and>
           (case r of Inr a \<Rightarrow> \<not> list_ex raised new | Inl e \<Rightarrow> stops_at new e)))"

definition guarded :: "('w, 'a) nb \<Rightarrow> bool" where
  "guarded m \<longleftrightarrow>
     (\<forall>s r s'. m s = (r, s') \<longrightarrow>
        (\<exists>new. trace s' = trace s @ new \<and>
           (case r of Inr a \<Rightarrow> \<not> list_ex raised new | Inl e \<Rightarrow> unwinds new e)))"

section \<open>Where a logged metric comes from\<close>

text \<open>The metric \<open>kv\<close> of a run is a score of the library: the run fitted a model on the
  loaded features, called the library's score function on these features and the labels
  of that model, the call returned the value logged, and the library's function does
  return that value on these arguments.\<close>

definition metric_from_library :: "'w library \<Rightarrow> event list \<Rightarrow> event list \<Rightarrow> string \<times> real \<Rightarrow> bool" where
  "metric_from_library lib tr seg kv \<longleftrightarrow>
     (\<exists>X y est m.
        (Load_iris, Returned (RBunch X y)) \<in> set tr \<and>
        (Fit est X, Returned (RFitted m)) \<in> set seg \<and>
        (fst kv = ''silhoutte_score'' \<and>
           (Silhouette_score X (labels_of m), Returned (RFloat (snd kv))) \<in> set seg \<and>
           (\<exists>w1 w2. sklearn_silhouette_score lib X (labels_of m) w1 = (Inr (snd kv), w2))
         \<or>
         fst kv = ''davies_bouldin_score'' \<and>
           (Davies_bouldin_score X (labels_of m), Returned (RFloat (snd kv))) \<in> set seg \<and>
           (\<exists>w1 w2. sklearn_davies_bouldin_score lib X (labels_of m) w1 = (Inr (snd kv), w2))))"

section \<open>Random state\<close>

text \<open>What is known of the library. A KMeans that is given a \<open>random_state\<close> returns the
  same on the same data whatever the state of the world, from \<open>fit_predict\<close> and from \<open>fit\<close>;
  the bundled data set is always the same; and a score depends on its arguments only.
  Nothing of the kind is known of a KMeans without \<open>random_state\<close>: that its \<open>fit\<close> does
  not depend on the world either is a further property, which a library may or may not
  have.\<close>

definition seeded_kmeans_deterministic :: "'w library \<Rightarrow> bool" where
  "seeded_kmeans_deterministic lib \<longleftrightarrow>
     (\<forall>n seed X w w'.
        fst (sklearn_fit_predict lib (KMeans n (Some seed)) X w) =
          fst (sklearn_fit_predict lib (KMeans n (Some seed)) X w') \<and>
        fst (sklearn_fit lib (KMeans n (Some seed)) X w) =
          fst (sklearn_fit lib (KMeans n (Some seed)) X w'))"

definition load_iris_fixed :: "'w library \<Rightarrow> bool" where
  "load_iris_fixed lib \<longleftrightarrow> (\<forall>w w'. fst (sklearn_load_iris lib w) = fst (sklearn_load_iris lib w'))"

definition scores_deterministic :: "'w library \<Rightarrow> bool" where
  "scores_deterministic lib \<longleftrightarrow>
     (\<forall>X l w w'.
        fst (sklearn_silhouette_score lib X l w) = fst (sklearn_silhouette_score lib X l w') \<and>
        fst (sklearn_davies_bouldin_score lib X l w) = fst (sklearn_davies_bouldin_score lib X l w'))"

definition unseeded_kmeans_deterministic :: "'w library \<Rightarrow> bool" where
  "unseeded_kmeans_deterministic lib \<longleftrightarrow>
     (\<forall>n X w w'. fst (sklearn_fit lib (KMeans n None) X w) = fst (sklearn_fit lib (KMeans n None) X w'))"

section \<open>Two libraries to run the notebook on\<close>

text \<open>A small library whose world is the state of a random number generator: a KMeans
  without \<open>random_state\<close> draws its labels from it, a seeded one does not. Its data set has
  two rows.\<close>

fun demo_labels :: "estimator \<Rightarrow> nat \<Rightarrow> ndarray \<Rightarrow> labels" where
  "demo_labels (KMeans n (Some seed)) w X = replicate (length X) 0"
| "demo_labels (KMeans n None) w X = replicate (length X) (int w)"
| "demo_labels (DBSCAN e m) w X = replicate (length X) (- 1)"

definition demo_lib :: "nat library" where
  "demo_lib = \<lparr>
     sklearn_load_iris = (\<lambda>w. (Inr ([[1, 2], [3, 4]], [0, 1]), w)),
     mlflow_autolog = (\<lambda>w. (Inr (), w)),
     sklearn_fit_predict = (\<lambda>est X w. (Inr (demo_labels est w X), w)),
     sklearn_fit = (\<lambda>est X w. (Inr (Fitted est (demo_labels est w X)), Suc w)),
     sklearn_silhouette_score = (\<lambda>X l w. (Inr (of_int (sum_list l)), w)),
     sklearn_davies_bouldin_score = (\<lambda>X l w. (Inr (of_int (sum_list l) + 1), w)),
     mlflow_create_experiment = (\<lambda>name w. (Inr ''1'', w)),
     mlflow_start_run = (\<lambda>eid name w. (Inr (), w)),
     mlflow_exit_run = (\<lambda>x w. (Inr False, w)),
     mlflow_log_param = (\<lambda>k v w. (Inr (), w)),
     mlflow_log_metric = (\<lambda>k v w. (Inr (), w)),
     mlflow_sklearn_log_model = (\<lambda>m path ex w. (Inr (), w)),
     mlflow_end_run = (\<lambda>w. (Inr (), w)),
     numpy_getitem = (\<lambda>X i w. (if i < length X then Inr (X ! i) else Inl (Exception ''IndexError''), w)),
     numpy_array = (\<lambda>rows w. (Inr rows, w)),
     ipython_system = (\<lambda>cmd w. (Inr (), w))\<rparr>"

text \<open>The same library, except that logging a DBSCAN model raises.\<close>

definition failing_lib :: "nat library" where
  "failing_lib = demo_lib\<lparr>mlflow_sklearn_log_model :=
     (\<lambda>m path ex w. (case estimator_of m of
         DBSCAN e n \<Rightarrow> Inl (Exception ''MlflowException'')
       | KMeans n seed \<Rightarrow> Inr (), w))\<rparr>"

text \<open>What \<open>demo_lib\<close> returns to the notebook when the generator starts in state \<open>w\<close>.\<close>

definition demo_returns :: "nat \<Rightarrow> returns" where
  "demo_returns w = \<lparr>
     got_features = [[1, 2], [3, 4]], got_target = [0, 1],
     got_labels_5 = [- 1, - 1], got_labels_6 = [0, 0],
     got_exp_id = ''1'',
     got_model_k2 = Fitted (KMeans 2 None) [int w, int w],
     got_score_k2 = 2 * real w,
     got_row_k2 = [1, 2], got_example_k2 = [[1, 2]], got_exit_k2 = False,
     got_model_k3 = Fitted (KMeans 3 None) [int w + 1, int w + 1],
     got_score_k3 = 2 * real w + 2,
     got_score_2_k3 = 2 * real w + 3,
     got_row_k3 = [1, 2], got_example_k3 = [[1, 2]], got_exit_k3 = False,
     got_model_db = Fitted (DBSCAN (1/2) 5) [- 1, - 1],
     got_score_db = - 2,
     got_row_db = [1, 2], got_example_db = [[1, 2]], got_exit_db = False\<rparr>"

section \<open>Statements in sequence\<close>

lemma raised_simps [simp]: "raised (c, Raised e)" "\<not> raised (c, Returned v)"
  by (simp_all add: raised_def)

lemma andthen_Inr:
  "andthen m f s = (Inr b, s') \<longleftrightarrow> (\<exists>a s1. m s = (Inr a, s1) \<and> f a s1 = (Inr b, s'))"
  by (auto simp: andthen_def split: prod.splits sum.splits)

lemma andthen_Inl:
  "andthen m f s = (Inl e, s') \<longleftrightarrow> (m s = (Inl e, s') \<or> (\<exists>a s1. m s = (Inr a, s1) \<and> f a s1 = (Inl e, s')))"
  by (auto simp: andthen_def split: prod.splits sum.splits)

lemma invoke_Inr:
  "invoke c wrap f s = (Inr r, s') \<longleftrightarrow>
     (\<exists>w'. f (world s) = (Inr r, w') \<and> s' = \<lparr>world = w', trace = trace s @ [(c, Returned (wrap r))]\<rparr>)"
  by (auto simp: invoke_def split: prod.splits sum.splits)

lemma invoke_Inl:
  "invoke c wrap f s = (Inl e, s') \<longleftrightarrow>
     (\<exists>w'. f (world s) = (Inl e, w') \<and> s' = \<lparr>world = w', trace = trace s @ [(c, Raised e)]\<rparr>)"
  by (auto simp: invoke_def split: prod.splits sum.splits)

lemmas call_defs = load_iris_def autolog_def fit_predict_def fit_def silhouette_score_def
  davies_bouldin_score_def create_experiment_def log_param_def log_metric_def log_model_def
  end_run_def getitem_def np_array_def shell_def

lemmas seq_simps = Let_def andthen_Inr andthen_Inl invoke_Inr invoke_Inl ret_def throw_def

section \<open>Executions in which no call raised\<close>

text \<open>When no event of the final trace is a raise, every call of the block was made and
  returned: the block's part of the trace is known up to the values returned.\<close>

lemma run_k2_clean:
  assumes "run_k2 lib X s = (r, s')" and "\<not> list_ex raised (trace s')"
  shows "\<exists>m sc r0 a. r = Inr () \<and> trace s' = trace s @
     [(Fit (KMeans 2 None) X, Returned (RFitted m)),
      (Silhouette_score X (labels_of m), Returned (RFloat sc)),
      (Log_param ''value_of_k'' (PyInt 2), Returned RNone),
      (Log_metric ''silhoutte_score'' sc, Returned RNone),
      (Getitem X 0, Returned (RRow r0)),
      (Np_array [r0], Returned (RArray a)),
      (Log_model m ''Clustering_Model'' a, Returned RNone),
      (End_run, Returned RNone)]"
  using assms
  by (cases r) (auto simp: run_k2_def call_defs seq_simps)

lemma run_k3_clean:
  assumes "run_k3 lib X s = (r, s')" and "\<not> list_ex raised (trace s')"
  shows "\<exists>m sc sc2 r0 a. r = Inr () \<and> trace s' = trace s @
     [(Fit (KMeans 3 None) X, Returned (RFitted m)),
      (Silhouette_score X (labels_of m), Returned (RFloat sc)),
      (Davies_bouldin_score X (labels_of m), Returned (RFloat sc2)),
      (Log_param ''value_of_k'' (PyInt 3), Returned RNone),
      (Log_metric ''silhoutte_score'' sc, Returned RNone),
      (Log_metric ''davies_bouldin_score'' sc2, Returned RNone),
      (Getitem X 0, Returned (RRow r0)),
      (Np_array [r0], Returned (RArray a)),
      (Log_model m ''Clustering_Model'' a, Returned RNone),
      (End_run, Returned RNone)]"
  using assms
  by (cases r) (auto simp: run_k3_def call_defs seq_simps)

lemma run_dbscan_clean:
  assumes "run_dbscan lib X s = (r, s')" and "\<not> list_ex raised (trace s')"
  shows "\<exists>m sc r0 a. r = Inr () \<and> trace s' = trace s @
     [(Fit (DBSCAN (1/2) 5) X, Returned (RFitted m)),
      (Silhouette_score X (labels_of m), Returned (RFloat sc)),
      (Log_param ''min_samples'' (PyInt 5), Returned RNone),
      (Log_param ''eps'' (PyFloat (1/2)), Returned RNone),
      (Log_metric ''silhoutte_score'' sc, Returned RNone),
      (Getitem X 0, Returned (RRow r0)),
      (Np_array [r0], Returned (RArray a)),
      (Log_model m ''Clustering_Model'' a, Returned RNone),
      (End_run, Returned RNone)]"
  using assms
  by (cases r) (auto simp: run_dbscan_def call_defs seq_simps)

lemma with_run_clean:
  assumes run: "with_run lib eid name body s = (r, s')"
    and clean: "\<not> list_ex raised (trace s')"
    and vis: "\<forall>s0 e s1. body s0 = (Inl e, s1) \<longrightarrow> list_ex raised (trace s1)"
  shows "\<exists>s1 s2 b. r = Inr () \<and> trace s1 = trace s @ [(Start_run eid name, Returned RNone)] \<and>
           body s1 = (Inr (), s2) \<and> trace s' = trace s2 @ [(Exit_run None, Returned (RBool b))]"
proof -
  obtain rs ss where st: "invoke (Start_run eid name) (\<lambda>_. RNone) (mlflow_start_run lib eid name) s = (rs, ss)"
    by (cases "invoke (Start_run eid name) (\<lambda>_. RNone) (mlflow_start_run lib eid name) s")
  show ?thesis
  proof (cases rs)
    case (Inl e)
    with st run have "s' = ss" by (simp add: with_run_def andthen_def)
    moreover from st Inl have "list_ex raised (trace ss)" by (auto simp: invoke_Inl)
    ultimately show ?thesis using clean by simp
  next
    case (Inr u)
    with st have tss: "trace ss = trace s @ [(Start_run eid name, Returned RNone)]"
      by (auto simp: invoke_Inr)
    obtain rb sb where bd: "body ss = (rb, sb)" by (cases "body ss")
    from run st Inr bd have fin: "(case rb of
         Inr u \<Rightarrow> andthen (invoke (Exit_run None) RBool (mlflow_exit_run lib None)) (\<lambda>_. ret ()) sb
       | Inl e \<Rightarrow> andthen (invoke (Exit_run (Some e)) RBool (mlflow_exit_run lib (Some e)))
             (\<lambda>swallow. if swallow then ret () else throw e) sb) = (r, s')"
      by (auto simp: with_run_def andthen_def split: sum.splits)
    have ext: "\<exists>t. trace s' = trace sb @ t"
      using fin by (cases rb; cases r) (auto simp: seq_simps split: if_splits)
    with clean have csb: "\<not> list_ex raised (trace sb)" by (auto simp: list_ex_iff)
    with vis bd have rb: "rb = Inr ()" by (cases rb) auto
    from fin rb clean have "\<exists>b. r = Inr () \<and> trace s' = trace sb @ [(Exit_run None, Returned (RBool b))]"
      by (cases r) (auto simp: seq_simps)
    with tss bd rb show ?thesis by blast
  qed
qed

lemma cell_3_clean:
  assumes "cell_3 lib s = (r, s')" and "\<not> list_ex raised (trace s')"
  shows "\<exists>X y. r = Inr (X, y) \<and> trace s' = trace s @ [(Load_iris, Returned (RBunch X y))]"
  using assms by (cases r) (auto simp: cell_3_def call_defs seq_simps)

lemma cell_5_clean:
  assumes "cell_5 lib X s = (r, s')" and "\<not> list_ex raised (trace s')"
  shows "\<exists>l. r = Inr l \<and> trace s' = trace s @
     [(Autolog, Returned RNone), (Fit_predict (DBSCAN (1/2) 5) X, Returned (RLabels l))]"
  using assms by (cases r) (auto simp: cell_5_def call_defs seq_simps)

lemma cell_6_clean:
  assumes "cell_6 lib X s = (r, s')" and "\<not> list_ex raised (trace s')"
  shows "\<exists>l. r = Inr l \<and> trace s' = trace s @
     [(Fit_predict (KMeans 3 (Some 42)) X, Returned (RLabels l))]"
  using assms by (cases r) (auto simp: cell_6_def call_defs seq_simps)

lemma cell_12_clean:
  assumes "cell_12 lib s = (r, s')" and "\<not> list_ex raised (trace s')"
  shows "r = Inr () \<and> trace s' = trace s @ [(Shell ''mlflow ui'', Returned RNone)]"
  using assms by (cases r) (auto simp: cell_12_def call_defs seq_simps)

lemma clean_prefix: "\<not> list_ex raised (xs @ ys) \<Longrightarrow> \<not> list_ex raised xs"
  by simp

lemma cell_9_clean:
  assumes run: "cell_9 lib eid X s = (r, s')" and clean: "\<not> list_ex raised (trace s')"
  shows "\<exists>m sc sc2 r0 a b. r = Inr () \<and> trace s' = trace s @
     [(Start_run eid ''Kmeans - K=3'', Returned RNone),
      (Fit (KMeans 3 None) X, Returned (RFitted m)),
      (Silhouette_score X (labels_of m), Returned (RFloat sc)),
      (Davies_bouldin_score X (labels_of m), Returned (RFloat sc2)),
      (Log_param ''value_of_k'' (PyInt 3), Returned RNone),
      (Log_metric ''silhoutte_score'' sc, Returned RNone),
      (Log_metric ''davies_bouldin_score'' sc2, Returned RNone),
      (Getitem X 0, Returned (RRow r0)),
      (Np_array [r0], Returned (RArray a)),
      (Log_model m ''Clustering_Model'' a, Returned RNone),
      (End_run, Returned RNone),
      (Exit_run None, Returned (RBool b))]"
proof -
  have vis: "\<forall>s0 e s1. run_k3 lib X s0 = (Inl e, s1) \<longrightarrow> list_ex raised (trace s1)"
    using run_k3_clean by blast
  from with_run_clean[OF run[unfolded cell_9_def] clean vis]
  obtain s1 s2 b where r: "r = Inr ()"
    and t1: "trace s1 = trace s @ [(Start_run eid ''Kmeans - K=3'', Returned RNone)]"
    and bd: "run_k3 lib X s1 = (Inr (), s2)"
    and t2: "trace s' = trace s2 @ [(Exit_run None, Returned (RBool b))]" by blast
  from clean t2 have "\<not> list_ex raised (trace s2)" by simp
  from run_k3_clean[OF bd this] r t1 t2 show ?thesis by auto
qed

lemma cell_10_clean:
  assumes run: "cell_10 lib eid X s = (r, s')" and clean: "\<not> list_ex raised (trace s')"
  shows "\<exists>m sc r0 a b. r = Inr () \<and> trace s' = trace s @
     [(Start_run eid ''DBSCAN'', Returned RNone),
      (Fit (DBSCAN (1/2) 5) X, Returned (RFitted m)),
      (Silhouette_score X (labels_of m), Returned (RFloat sc)),
      (Log_param ''min_samples'' (PyInt 5), Returned RNone),
      (Log_param ''eps'' (PyFloat (1/2)), Returned RNone),
      (Log_metric ''silhoutte_score'' sc, Returned RNone),
      (Getitem X 0, Returned (RRow r0)),
      (Np_array [r0], Returned (RArray a)),
      (Log_model m ''Clustering_Model'' a, Returned RNone),
      (End_run, Returned RNone),
      (Exit_run None, Returned (RBool b))]"
proof -
  have vis: "\<forall>s0 e s1. run_dbscan lib X s0 = (Inl e, s1) \<longrightarrow> list_ex raised (trace s1)"
    using run_dbscan_clean by blast
  from with_run_clean[OF run[unfolded cell_10_def] clean vis]
  obtain s1 s2 b where r: "r = Inr ()"
    and t1: "trace s1 = trace s @ [(Start_run eid ''DBSCAN'', Returned RNone)]"
    and bd: "run_dbscan lib X s1 = (Inr (), s2)"
    and t2: "trace s' = trace s2 @ [(Exit_run None, Returned (RBool b))]" by blast
  from clean t2 have "\<not> list_ex raised (trace s2)" by simp
  from run_dbscan_clean[OF bd this] r t1 t2 show ?thesis by auto
qed

lemma cell_8_clean:
  assumes run: "cell_8 lib X s = (r, s')" and clean: "\<not> list_ex raised (trace s')"
  shows "\<exists>eid m sc r0 a b. r = Inr eid \<and> trace s' = trace s @
     [(Create_experiment ''Clustering-Ejemplos'', Returned (RStr eid)),
      (Start_run eid ''Kmeans - K=2'', Returned RNone),
      (Fit (KMeans 2 None) X, Returned (RFitted m)),
      (Silhouette_score X (labels_of m), Returned (RFloat sc)),
      (Log_param ''value_of_k'' (PyInt 2), Returned RNone),
      (Log_metric ''silhoutte_score'' sc, Returned RNone),
      (Getitem X 0, Returned (RRow r0)),
      (Np_array [r0], Returned (RArray a)),
      (Log_model m ''Clustering_Model'' a, Returned RNone),
      (End_run, Returned RNone),
      (Exit_run None, Returned (RBool b))]"
proof -
  have vis: "\<forall>s0 e s1. run_k2 lib X s0 = (Inl e, s1) \<longrightarrow> list_ex raised (trace s1)"
    using run_k2_clean by blast
  obtain rc sc where ce: "create_experiment lib ''Clustering-Ejemplos'' s = (rc, sc)"
    by (cases "create_experiment lib ''Clustering-Ejemplos'' s")
  show ?thesis
  proof (cases rc)
    case (Inl e)
    with ce run have "s' = sc" by (simp add: cell_8_def andthen_def)
    moreover from ce Inl have "list_ex raised (trace sc)"
      by (auto simp: create_experiment_def invoke_Inl)
    ultimately show ?thesis using clean by simp
  next
    case (Inr eid)
    with ce have tsc: "trace sc = trace s @ [(Create_experiment ''Clustering-Ejemplos'', Returned (RStr eid))]"
      by (auto simp: create_experiment_def invoke_Inr)
    obtain rw sw where wr: "with_run lib eid ''Kmeans - K=2'' (run_k2 lib X) sc = (rw, sw)"
      by (cases "with_run lib eid ''Kmeans - K=2'' (run_k2 lib X) sc")
    from run ce Inr wr have fin: "(case rw of Inl e \<Rightarrow> (Inl e, sw) | Inr u \<Rightarrow> (Inr eid, sw)) = (r, s')"
      by (simp add: cell_8_def andthen_def ret_def split: sum.splits)
    then have ss: "s' = sw" by (cases rw) auto
    from with_run_clean[OF wr clean[unfolded ss] vis]
    obtain s1 s2 b where rw: "rw = Inr ()"
      and t1: "trace s1 = trace sc @ [(Start_run eid ''Kmeans - K=2'', Returned RNone)]"
      and bd: "run_k2 lib X s1 = (Inr (), s2)"
      and t2: "trace sw = trace s2 @ [(Exit_run None, Returned (RBool b))]" by blast
    from clean ss t2 have "\<not> list_ex raised (trace s2)" by simp
    from run_k2_clean[OF bd this] fin rw t1 t2 tsc ss show ?thesis by auto
  qed
qed

section \<open>The events of any execution\<close>

text \<open>Whatever the library does, an execution only makes calls at the notebook's call
  sites, and every outcome in the trace is an answer of the library.\<close>

lemma only_eventsD:
  "only_events P m \<Longrightarrow> m s = (r, s') \<Longrightarrow> \<exists>new. trace s' = trace s @ new \<and> list_all P new"
  unfolding only_events_def by blast

lemma only_events_ret: "only_events P (ret a)"
  by (simp add: only_events_def ret_def)

lemma only_events_throw: "only_events P (throw e)"
  by (simp add: only_events_def throw_def)

lemma only_events_invoke:
  assumes "\<And>w e w'. f w = (Inl e, w') \<Longrightarrow> P (c, Raised e)"
    and "\<And>w r w'. f w = (Inr r, w') \<Longrightarrow> P (c, Returned (wrap r))"
  shows "only_events P (invoke c wrap f)"
  using assms by (auto simp: only_events_def invoke_def split: prod.splits sum.splits)

lemma only_events_andthen:
  assumes "only_events P m" and "\<And>a. only_events P (f a)"
  shows "only_events P (andthen m f)"
proof (unfold only_events_def, intro allI impI)
  fix s r s' assume run: "andthen m f s = (r, s')"
  obtain rm sm where m: "m s = (rm, sm)" by (cases "m s")
  from only_eventsD[OF assms(1) m] obtain n1 where n1: "trace sm = trace s @ n1" "list_all P n1"
    by blast
  show "\<exists>new. trace s' = trace s @ new \<and> list_all P new"
  proof (cases rm)
    case (Inl e)
    with run m have "s' = sm" by (simp add: andthen_def)
    with n1 show ?thesis by auto
  next
    case (Inr a)
    with run m have "f a sm = (r, s')" by (simp add: andthen_def)
    from only_eventsD[OF assms(2) this] obtain n2 where "trace s' = trace sm @ n2" "list_all P n2"
      by blast
    with n1 have "trace s' = trace s @ (n1 @ n2) \<and> list_all P (n1 @ n2)" by simp
    then show ?thesis by blast
  qed
qed

lemma only_events_with_run:
  assumes st: "only_events P (invoke (Start_run eid name) (\<lambda>_. RNone) (mlflow_start_run lib eid name))"
    and ex: "\<And>x. only_events P (invoke (Exit_run x) RBool (mlflow_exit_run lib x))"
    and body: "only_events P body"
  shows "only_events P (with_run lib eid name body)"
proof -
  have inner: "only_events P (\<lambda>s. case body s of
         (Inr u, s1) \<Rightarrow>
           andthen (invoke (Exit_run None) RBool (mlflow_exit_run lib None)) (\<lambda>_. ret ()) s1
       | (Inl e, s1) \<Rightarrow>
           andthen (invoke (Exit_run (Some e)) RBool (mlflow_exit_run lib (Some e)))
             (\<lambda>swallow. if swallow then ret () else throw e) s1)" (is "only_events P ?k")
  proof (unfold only_events_def, intro allI impI)
    fix s r s' assume run: "?k s = (r, s')"
    obtain rb sb where b: "body s = (rb, sb)" by (cases "body s")
    from only_eventsD[OF body b] obtain n1 where n1: "trace sb = trace s @ n1" "list_all P n1"
      by blast
    have "\<exists>n2. trace s' = trace sb @ n2 \<and> list_all P n2"
    proof (cases rb)
      case (Inl e)
      have "only_events P (andthen (invoke (Exit_run (Some e)) RBool (mlflow_exit_run lib (Some e)))
             (\<lambda>swallow. if swallow then ret () else throw e))"
        by (intro only_events_andthen ex) (simp add: only_events_ret only_events_throw)
      moreover from run b Inl have "andthen (invoke (Exit_run (Some e)) RBool (mlflow_exit_run lib (Some e)))
             (\<lambda>swallow. if swallow then ret () else throw e) sb = (r, s')" by simp
      ultimately show ?thesis by (rule only_eventsD)
    next
      case (Inr u)
      have "only_events P (andthen (invoke (Exit_run None) RBool (mlflow_exit_run lib None)) (\<lambda>_. ret ()))"
        by (intro only_events_andthen ex only_events_ret)
      moreover from run b Inr have "andthen (invoke (Exit_run None) RBool (mlflow_exit_run lib None)) (\<lambda>_. ret ()) sb = (r, s')"
        by simp
      ultimately show ?thesis by (rule only_eventsD)
    qed
    then obtain n2 where "trace s' = trace sb @ n2" "list_all P n2" by blast
    with n1 have "trace s' = trace s @ (n1 @ n2) \<and> list_all P (n1 @ n2)" by simp
    then show "\<exists>new. trace s' = trace s @ new \<and> list_all P new" by blast
  qed
  show ?thesis
    unfolding with_run_def by (intro only_events_andthen st inner)
qed

lemmas cell_defs = cell_3_def cell_5_def cell_6_def cell_8_def cell_9_def cell_10_def cell_12_def
  run_k2_def run_k3_def run_dbscan_def

lemma invoke_notebook_event:
  assumes c: "notebook_call c" and f: "\<And>w. lib_apply lib c w = answer wrap (f w)"
  shows "only_events (notebook_event lib) (invoke c wrap f)"
proof (rule only_events_invoke)
  fix w e w' assume "f w = (Inl e, w')"
  with f[of w] have "lib_apply lib c w = (Raised e, w')" by (simp add: answer_def)
  with c show "notebook_event lib (c, Raised e)"
    unfolding notebook_event_def justified_def by auto
next
  fix w r w' assume "f w = (Inr r, w')"
  with f[of w] have "lib_apply lib c w = (Returned (wrap r), w')" by (simp add: answer_def)
  with c show "notebook_event lib (c, Returned (wrap r))"
    unfolding notebook_event_def justified_def by auto
qed

lemma cell_3_events: "only_events (notebook_event lib) (cell_3 lib)"
  unfolding cell_defs call_defs Let_def
  by (intro only_events_andthen invoke_notebook_event only_events_ret) simp_all

lemma cell_5_events: "only_events (notebook_event lib) (cell_5 lib X)"
  unfolding cell_defs call_defs Let_def
  by (intro only_events_andthen invoke_notebook_event only_events_ret) simp_all

lemma cell_6_events: "only_events (notebook_event lib) (cell_6 lib X)"
  unfolding cell_defs call_defs Let_def
  by (intro only_events_andthen invoke_notebook_event only_events_ret) simp_all

lemma cell_8_events: "only_events (notebook_event lib) (cell_8 lib X)"
  unfolding cell_defs call_defs Let_def
  by (intro only_events_andthen only_events_with_run invoke_notebook_event only_events_ret)
     (simp_all add: named_runs_def)

lemma cell_9_events: "only_events (notebook_event lib) (cell_9 lib eid X)"
  unfolding cell_defs call_defs Let_def
  by (intro only_events_andthen only_events_with_run invoke_notebook_event only_events_ret)
     (simp_all add: named_runs_def)

lemma cell_10_events: "only_events (notebook_event lib) (cell_10 lib eid X)"
  unfolding cell_defs call_defs Let_def
  by (intro only_events_andthen only_events_with_run invoke_notebook_event only_events_ret)
     (simp_all add: named_runs_def)

lemma cell_12_events: "only_events (notebook_event lib) (cell_12 lib)"
  unfolding cell_defs call_defs
  by (intro invoke_notebook_event) simp_all

lemmas cell_events = cell_3_events cell_5_events cell_6_events cell_8_events cell_9_events
  cell_10_events cell_12_events

lemma notebook_events: "only_events (notebook_event lib) (notebook lib)"
  unfolding notebook_def case_prod_beta
  by (intro only_events_andthen cell_events)

section \<open>The trace of a complete execution\<close>

lemma andthen_clean:
  assumes run: "andthen m f s = (r, s')" and clean: "\<not> list_ex raised (trace s')"
    and vis: "\<forall>s0 e s1. m s0 = (Inl e, s1) \<longrightarrow> list_ex raised (trace s1)"
    and ext: "\<And>a. only_events P (f a)"
  shows "\<exists>a s1. m s = (Inr a, s1) \<and> f a s1 = (r, s') \<and> \<not> list_ex raised (trace s1)"
proof -
  obtain rm sm where m: "m s = (rm, sm)" by (cases "m s")
  show ?thesis
  proof (cases rm)
    case (Inl e)
    with run m have "s' = sm" by (simp add: andthen_def)
    with vis m Inl clean show ?thesis by blast
  next
    case (Inr a)
    with run m have k: "f a sm = (r, s')" by (simp add: andthen_def)
    from only_eventsD[OF ext k] clean have "\<not> list_ex raised (trace sm)" by auto
    with m Inr k show ?thesis by blast
  qed
qed

lemma notebook_clean:
  assumes run: "notebook lib s = (r, s')" and clean: "\<not> list_ex raised (trace s')"
  shows "\<exists>a. r = Inr () \<and> trace s' = trace s @ complete_trace a"
proof -
  define k10 where "k10 eid X = andthen (cell_10 lib eid X) (\<lambda>_. cell_12 lib)" for eid X
  define k9 where "k9 eid X = andthen (cell_9 lib eid X) (\<lambda>_. k10 eid X)" for eid X
  define k8 where "k8 X = andthen (cell_8 lib X) (\<lambda>eid. k9 eid X)" for X
  define k6 where "k6 X = andthen (cell_6 lib X) (\<lambda>_. k8 X)" for X
  define k5 where "k5 X = andthen (cell_5 lib X) (\<lambda>_. k6 X)" for X
  have nb: "notebook lib = andthen (cell_3 lib) (\<lambda>p. k5 (fst p))"
    by (simp add: notebook_def k5_def k6_def k8_def k9_def k10_def case_prod_unfold)
  have e10: "only_events (notebook_event lib) (k10 eid X)" for eid X
    unfolding k10_def by (intro only_events_andthen cell_events)
  have e9: "only_events (notebook_event lib) (k9 eid X)" for eid X
    unfolding k9_def by (intro only_events_andthen cell_events e10)
  have e8: "only_events (notebook_event lib) (k8 X)" for X
    unfolding k8_def by (intro only_events_andthen cell_events e9)
  have e6: "only_events (notebook_event lib) (k6 X)" for X
    unfolding k6_def by (intro only_events_andthen cell_events e8)
  have e5: "only_events (notebook_event lib) (k5 X)" for X
    unfolding k5_def by (intro only_events_andthen cell_events e6)
  have v3: "\<forall>s0 e s1. cell_3 lib s0 = (Inl e, s1) \<longrightarrow> list_ex raised (trace s1)"
    using cell_3_clean by blast
  have v5: "\<forall>s0 e s1. cell_5 lib X s0 = (Inl e, s1) \<longrightarrow> list_ex raised (trace s1)" for X
    using cell_5_clean by blast
  have v6: "\<forall>s0 e s1. cell_6 lib X s0 = (Inl e, s1) \<longrightarrow> list_ex raised (trace s1)" for X
    using cell_6_clean by blast
  have v8: "\<forall>s0 e s1. cell_8 lib X s0 = (Inl e, s1) \<longrightarrow> list_ex raised (trace s1)" for X
    using cell_8_clean by blast
  have v9: "\<forall>s0 e s1. cell_9 lib eid X s0 = (Inl e, s1) \<longrightarrow> list_ex raised (trace s1)" for eid X
    using cell_9_clean by blast
  have v10: "\<forall>s0 e s1. cell_10 lib eid X s0 = (Inl e, s1) \<longrightarrow> list_ex raised (trace s1)" for eid X
    using cell_10_clean by blast
  from andthen_clean[OF run[unfolded nb] clean v3 e5]
  obtain p s3 where c3: "cell_3 lib s = (Inr p, s3)" and n3: "k5 (fst p) s3 = (r, s')"
    and cl3: "\<not> list_ex raised (trace s3)" by blast
  from andthen_clean[OF n3[unfolded k5_def] clean v5 e6]
  obtain l5' s5 where c5: "cell_5 lib (fst p) s3 = (Inr l5', s5)" and n5: "k6 (fst p) s5 = (r, s')"
    and cl5: "\<not> list_ex raised (trace s5)" by blast
  from andthen_clean[OF n5[unfolded k6_def] clean v6 e8]
  obtain l6' s6 where c6: "cell_6 lib (fst p) s5 = (Inr l6', s6)" and n6: "k8 (fst p) s6 = (r, s')"
    and cl6: "\<not> list_ex raised (trace s6)" by blast
  from andthen_clean[OF n6[unfolded k8_def] clean v8 e9]
  obtain eid s8 where c8: "cell_8 lib (fst p) s6 = (Inr eid, s8)" and n8: "k9 eid (fst p) s8 = (r, s')"
    and cl8: "\<not> list_ex raised (trace s8)" by blast
  from andthen_clean[OF n8[unfolded k9_def] clean v9 e10]
  obtain u9 s9 where c9: "cell_9 lib eid (fst p) s8 = (Inr u9, s9)" and n9: "k10 eid (fst p) s9 = (r, s')"
    and cl9: "\<not> list_ex raised (trace s9)" by blast
  from andthen_clean[OF n9[unfolded k10_def] clean v10 cell_12_events]
  obtain u10 s10 where c10: "cell_10 lib eid (fst p) s9 = (Inr u10, s10)" and n10: "cell_12 lib s10 = (r, s')"
    and cl10: "\<not> list_ex raised (trace s10)" by blast
  from cell_3_clean[OF c3 cl3] obtain X y where p: "p = (X, y)"
    and t3: "trace s3 = trace s @ [(Load_iris, Returned (RBunch X y))]" by blast
  from cell_5_clean[OF c5 cl5] p obtain l5 where
    t5: "trace s5 = trace s3 @
       [(Autolog, Returned RNone), (Fit_predict (DBSCAN (1/2) 5) X, Returned (RLabels l5))]"
    by auto
  from cell_6_clean[OF c6 cl6] p obtain l6 where
    t6: "trace s6 = trace s5 @ [(Fit_predict (KMeans 3 (Some 42)) X, Returned (RLabels l6))]"
    by auto
  from cell_8_clean[OF c8 cl8] p obtain m2 sc2 r2 a2 b2 where
    t8: "trace s8 = trace s6 @
     [(Create_experiment ''Clustering-Ejemplos'', Returned (RStr eid)),
      (Start_run eid ''Kmeans - K=2'', Returned RNone),
      (Fit (KMeans 2 None) X, Returned (RFitted m2)),
      (Silhouette_score X (labels_of m2), Returned (RFloat sc2)),
      (Log_param ''value_of_k'' (PyInt 2), Returned RNone),
      (Log_metric ''silhoutte_score'' sc2, Returned RNone),
      (Getitem X 0, Returned (RRow r2)),
      (Np_array [r2], Returned (RArray a2)),
      (Log_model m2 ''Clustering_Model'' a2, Returned RNone),
      (End_run, Returned RNone),
      (Exit_run None, Returned (RBool b2))]" by auto
  from cell_9_clean[OF c9 cl9] p obtain m3 sc3 db3 r3 a3 b3 where
    t9: "trace s9 = trace s8 @
     [(Start_run eid ''Kmeans - K=3'', Returned RNone),
      (Fit (KMeans 3 None) X, Returned (RFitted m3)),
      (Silhouette_score X (labels_of m3), Returned (RFloat sc3)),
      (Davies_bouldin_score X (labels_of m3), Returned (RFloat db3)),
      (Log_param ''value_of_k'' (PyInt 3), Returned RNone),
      (Log_metric ''silhoutte_score'' sc3, Returned RNone),
      (Log_metric ''davies_bouldin_score'' db3, Returned RNone),
      (Getitem X 0, Returned (RRow r3)),
      (Np_array [r3], Returned (RArray a3)),
      (Log_model m3 ''Clustering_Model'' a3, Returned RNone),
      (End_run, Returned RNone),
      (Exit_run None, Returned (RBool b3))]" by auto
  from cell_10_clean[OF c10 cl10] p obtain m4 sc4 r4 a4 b4 where
    t10: "trace s10 = trace s9 @
     [(Start_run eid ''DBSCAN'', Returned RNone),
      (Fit (DBSCAN (1/2) 5) X, Returned (RFitted m4)),
      (Silhouette_score X (labels_of m4), Returned (RFloat sc4)),
      (Log_param ''min_samples'' (PyInt 5), Returned RNone),
      (Log_param ''eps'' (PyFloat (1/2)), Returned RNone),
      (Log_metric ''silhoutte_score'' sc4, Returned RNone),
      (Getitem X 0, Returned (RRow r4)),
      (Np_array [r4], Returned (RArray a4)),
      (Log_model m4 ''Clustering_Model'' a4, Returned RNone),
      (End_run, Returned RNone),
      (Exit_run None, Returned (RBool b4))]" by auto
  from cell_12_clean[OF n10 clean] have r: "r = Inr ()"
    and t12: "trace s' = trace s10 @ [(Shell ''mlflow ui'', Returned RNone)]" by auto
  let ?a = "\<lparr>got_features = X, got_target = y, got_labels_5 = l5, got_labels_6 = l6,
     got_exp_id = eid,
     got_model_k2 = m2, got_score_k2 = sc2, got_row_k2 = r2, got_example_k2 = a2, got_exit_k2 = b2,
     got_model_k3 = m3, got_score_k3 = sc3, got_score_2_k3 = db3, got_row_k3 = r3,
     got_example_k3 = a3, got_exit_k3 = b3,
     got_model_db = m4, got_score_db = sc4, got_row_db = r4, got_example_db = a4, got_exit_db = b4\<rparr>"
  have "trace s' = trace s @ complete_trace ?a"
    by (simp add: t12 t10 t9 t8 t6 t5 t3 complete_trace_def)
  with r show ?thesis by blast
qed

section \<open>Executions in which a call raised\<close>

text \<open>A block of library calls stops at the first one that raises. A \<open>with\<close> block adds
  the call of the exit, which, if it never swallows, hands the exception on.\<close>

lemma straightD:
  "straight m \<Longrightarrow> m s = (r, s') \<Longrightarrow>
     \<exists>new. trace s' = trace s @ new \<and> (case r of Inr a \<Rightarrow> \<not> list_ex raised new | Inl e \<Rightarrow> stops_at new e)"
  unfolding straight_def by blast

lemma guardedD:
  "guarded m \<Longrightarrow> m s = (r, s') \<Longrightarrow>
     \<exists>new. trace s' = trace s @ new \<and> (case r of Inr a \<Rightarrow> \<not> list_ex raised new | Inl e \<Rightarrow> unwinds new e)"
  unfolding guarded_def by blast

lemma stops_at_prepend:
  assumes "\<not> list_ex raised n1" and "stops_at n2 e"
  shows "stops_at (n1 @ n2) e"
proof -
  from assms(2) obtain pre c where "n2 = pre @ [(c, Raised e)]" "\<not> list_ex raised pre"
    unfolding stops_at_def by blast
  with assms(1) have "n1 @ n2 = (n1 @ pre) @ [(c, Raised e)] \<and> \<not> list_ex raised (n1 @ pre)"
    by simp
  then show ?thesis unfolding stops_at_def by blast
qed

lemma unwinds_prepend:
  assumes "\<not> list_ex raised n1" and "unwinds n2 e"
  shows "unwinds (n1 @ n2) e"
proof -
  from assms(2) consider "stops_at n2 e"
    | pre c out e0 where "n2 = pre @ [(c, Raised e0), (Exit_run (Some e0), out)]"
        "\<not> list_ex raised pre" "out = Raised e \<or> out = Returned (RBool False) \<and> e = e0"
    unfolding unwinds_def by blast
  then show ?thesis
  proof cases
    case 1
    with assms(1) show ?thesis by (simp add: unwinds_def stops_at_prepend)
  next
    case 2
    with assms(1) have "n1 @ n2 = (n1 @ pre) @ [(c, Raised e0), (Exit_run (Some e0), out)]"
      "\<not> list_ex raised (n1 @ pre)" by simp_all
    with 2(3) show ?thesis unfolding unwinds_def by blast
  qed
qed

lemma straight_ret: "straight (ret a)"
  by (simp add: straight_def ret_def)

lemma straight_invoke: "straight (invoke c wrap f)"
  by (auto simp: straight_def invoke_def stops_at_def split: prod.splits sum.splits)

lemma straight_andthen:
  assumes "straight m" and "\<And>a. straight (f a)"
  shows "straight (andthen m f)"
proof (unfold straight_def, intro allI impI)
  fix s r s' assume run: "andthen m f s = (r, s')"
  obtain rm sm where m: "m s = (rm, sm)" by (cases "m s")
  from straightD[OF assms(1) m] obtain n1 where n1: "trace sm = trace s @ n1"
    and c1: "case rm of Inr a \<Rightarrow> \<not> list_ex raised n1 | Inl e \<Rightarrow> stops_at n1 e" by blast
  show "\<exists>new. trace s' = trace s @ new \<and>
           (case r of Inr a \<Rightarrow> \<not> list_ex raised new | Inl e \<Rightarrow> stops_at new e)"
  proof (cases rm)
    case (Inl e)
    with run m have "s' = sm" "r = Inl e" by (simp_all add: andthen_def)
    with n1 c1 Inl show ?thesis by auto
  next
    case (Inr a)
    with run m have "f a sm = (r, s')" by (simp add: andthen_def)
    from straightD[OF assms(2) this] obtain n2 where n2: "trace s' = trace sm @ n2"
      and c2: "case r of Inr a \<Rightarrow> \<not> list_ex raised n2 | Inl e \<Rightarrow> stops_at n2 e" by blast
    from c1 Inr have cl: "\<not> list_ex raised n1" by simp
    have "case r of Inr a \<Rightarrow> \<not> list_ex raised (n1 @ n2) | Inl e \<Rightarrow> stops_at (n1 @ n2) e"
      using c2 cl by (cases r) (auto simp: stops_at_prepend)
    with n1 n2 show ?thesis by (intro exI[of _ "n1 @ n2"]) simp
  qed
qed

lemma guarded_of_straight:
  assumes "straight m"
  shows "guarded m"
proof (unfold guarded_def, intro allI impI)
  fix s r s' assume "m s = (r, s')"
  from straightD[OF assms this] obtain new where n: "trace s' = trace s @ new"
    and c: "case r of Inr a \<Rightarrow> \<not> list_ex raised new | Inl e \<Rightarrow> stops_at new e" by blast
  from c have "case r of Inr a \<Rightarrow> \<not> list_ex raised new | Inl e \<Rightarrow> unwinds new e"
    by (cases r) (simp_all add: unwinds_def)
  with n show "\<exists>new. trace s' = trace s @ new \<and>
           (case r of Inr a \<Rightarrow> \<not> list_ex raised new | Inl e \<Rightarrow> unwinds new e)" by blast
qed

lemma guarded_andthen:
  assumes "guarded m" and "\<And>a. guarded (f a)"
  shows "guarded (andthen m f)"
proof (unfold guarded_def, intro allI impI)
  fix s r s' assume run: "andthen m f s = (r, s')"
  obtain rm sm where m: "m s = (rm, sm)" by (cases "m s")
  from guardedD[OF assms(1) m] obtain n1 where n1: "trace sm = trace s @ n1"
    and c1: "case rm of Inr a \<Rightarrow> \<not> list_ex raised n1 | Inl e \<Rightarrow> unwinds n1 e" by blast
  show "\<exists>new. trace s' = trace s @ new \<and>
           (case r of Inr a \<Rightarrow> \<not> list_ex raised new | Inl e \<Rightarrow> unwinds new e)"
  proof (cases rm)
    case (Inl e)
    with run m have "s' = sm" "r = Inl e" by (simp_all add: andthen_def)
    with n1 c1 Inl show ?thesis by auto
  next
    case (Inr a)
    with run m have "f a sm = (r, s')" by (simp add: andthen_def)
    from guardedD[OF assms(2) this] obtain n2 where n2: "trace s' = trace sm @ n2"
      and c2: "case r of Inr a \<Rightarrow> \<not> list_ex raised n2 | Inl e \<Rightarrow> unwinds n2 e" by blast
    from c1 Inr have cl: "\<not> list_ex raised n1" by simp
    have "case r of Inr a \<Rightarrow> \<not> list_ex raised (n1 @ n2) | Inl e \<Rightarrow> unwinds (n1 @ n2) e"
      using c2 cl by (cases r) (auto simp: unwinds_prepend)
    with n1 n2 show ?thesis by (intro exI[of _ "n1 @ n2"]) simp
  qed
qed

lemma guarded_with_run:
  assumes ns: "never_swallows lib" and body: "straight body"
  shows "guarded (with_run lib eid name body)"
proof (unfold guarded_def, intro allI impI)
  fix s r s' assume run: "with_run lib eid name body s = (r, s')"
  let ?goal = "\<exists>new. trace s' = trace s @ new \<and>
           (case r of Inr a \<Rightarrow> \<not> list_ex raised new | Inl e \<Rightarrow> unwinds new e)"
  let ?start = "(Start_run eid name, Returned RNone)"
  obtain rs ss where st: "invoke (Start_run eid name) (\<lambda>_. RNone) (mlflow_start_run lib eid name) s = (rs, ss)"
    by (cases "invoke (Start_run eid name) (\<lambda>_. RNone) (mlflow_start_run lib eid name) s")
  show ?goal
  proof (cases rs)
    case (Inl e)
    with st run have "s' = ss" "r = Inl e" by (simp_all add: with_run_def andthen_def)
    moreover from st Inl have "trace ss = trace s @ [(Start_run eid name, Raised e)]"
      by (auto simp: invoke_Inl)
    moreover have "unwinds [(Start_run eid name, Raised e)] e"
      unfolding unwinds_def stops_at_def by (intro disjI1 exI[of _ "[]"]) simp
    ultimately show ?thesis by auto
  next
    case (Inr u)
    with st have tss: "trace ss = trace s @ [?start]" by (auto simp: invoke_Inr)
    obtain rb sb where bd: "body ss = (rb, sb)" by (cases "body ss")
    from straightD[OF body bd] obtain nb where tsb: "trace sb = trace ss @ nb"
      and cb: "case rb of Inr a \<Rightarrow> \<not> list_ex raised nb | Inl e \<Rightarrow> stops_at nb e" by blast
    show ?thesis
    proof (cases rb)
      case rbr: (Inr ub)
      with cb have clean: "\<not> list_ex raised nb" by simp
      from run st Inr bd rbr
      have fin: "andthen (invoke (Exit_run None) RBool (mlflow_exit_run lib None)) (\<lambda>_. ret ()) sb = (r, s')"
        by (simp add: with_run_def andthen_def)
      show ?thesis
      proof (cases r)
        case (Inl e)
        with fin have "trace s' = trace sb @ [(Exit_run None, Raised e)]"
          by (auto simp: seq_simps)
        with tss tsb have t: "trace s' = trace s @ ((?start # nb) @ [(Exit_run None, Raised e)])" by simp
        from clean have "stops_at ((?start # nb) @ [(Exit_run None, Raised e)]) e"
          unfolding stops_at_def by (intro exI[of _ "?start # nb"] exI[of _ "Exit_run None"]) simp
        then have "unwinds ((?start # nb) @ [(Exit_run None, Raised e)]) e" by (simp add: unwinds_def)
        with t Inl show ?thesis by auto
      next
        case (Inr a)
        with fin obtain b where "trace s' = trace sb @ [(Exit_run None, Returned (RBool b))]"
          by (auto simp: seq_simps)
        with tss tsb clean Inr show ?thesis by auto
      qed
    next
      case rbl: (Inl e0)
      with cb obtain pre c where nb: "nb = pre @ [(c, Raised e0)]" and clean: "\<not> list_ex raised pre"
        unfolding stops_at_def by auto
      from run st Inr bd rbl
      have fin: "andthen (invoke (Exit_run (Some e0)) RBool (mlflow_exit_run lib (Some e0)))
             (\<lambda>swallow. if swallow then ret () else throw e0) sb = (r, s')"
        by (simp add: with_run_def andthen_def)
      obtain rx sx where ex: "invoke (Exit_run (Some e0)) RBool (mlflow_exit_run lib (Some e0)) sb = (rx, sx)"
        by (cases "invoke (Exit_run (Some e0)) RBool (mlflow_exit_run lib (Some e0)) sb")
      have "\<exists>e out. r = Inl e \<and> trace s' = trace sb @ [(Exit_run (Some e0), out)] \<and>
              (out = Raised e \<or> out = Returned (RBool False) \<and> e = e0)"
      proof (cases rx)
        case (Inl e)
        with ex fin have "r = Inl e" "s' = sx" by (simp_all add: andthen_def)
        moreover from ex Inl have "trace sx = trace sb @ [(Exit_run (Some e0), Raised e)]"
          by (auto simp: invoke_Inl)
        ultimately show ?thesis by auto
      next
        case (Inr b)
        with ex obtain w' where lib: "mlflow_exit_run lib (Some e0) (world sb) = (Inr b, w')"
          and tsx: "trace sx = trace sb @ [(Exit_run (Some e0), Returned (RBool b))]"
          by (auto simp: invoke_Inr)
        from ns lib have nb: "\<not> b" unfolding never_swallows_def by (metis fst_conv)
        with ex Inr fin have "r = Inl e0" "s' = sx" by (simp_all add: andthen_def throw_def)
        with tsx nb show ?thesis by auto
      qed
      then obtain e out where r: "r = Inl e" and ts: "trace s' = trace sb @ [(Exit_run (Some e0), out)]"
        and out: "out = Raised e \<or> out = Returned (RBool False) \<and> e = e0" by blast
      from ts tsb tss nb
      have t: "trace s' = trace s @ ((?start # pre) @ [(c, Raised e0), (Exit_run (Some e0), out)])"
        by simp
      from clean have "\<not> list_ex raised (?start # pre)" by simp
      with out have "unwinds ((?start # pre) @ [(c, Raised e0), (Exit_run (Some e0), out)]) e"
        unfolding unwinds_def by blast
      with t r show ?thesis by auto
    qed
  qed
qed

lemmas straight_intros = straight_andthen straight_invoke straight_ret

lemma straight_run_k2: "straight (run_k2 lib X)"
  unfolding run_k2_def call_defs Let_def by (intro straight_intros)

lemma straight_run_k3: "straight (run_k3 lib X)"
  unfolding run_k3_def call_defs Let_def by (intro straight_intros)

lemma straight_run_dbscan: "straight (run_dbscan lib X)"
  unfolding run_dbscan_def call_defs Let_def by (intro straight_intros)

lemma guarded_notebook:
  assumes "never_swallows lib"
  shows "guarded (notebook lib)"
  unfolding notebook_def cell_3_def cell_5_def cell_6_def cell_8_def cell_9_def cell_10_def
    cell_12_def call_defs Let_def case_prod_unfold
  by (intro guarded_andthen guarded_with_run[OF assms] straight_run_k2 straight_run_k3
      straight_run_dbscan guarded_of_straight[OF straight_invoke] guarded_of_straight[OF straight_ret])

section \<open>Whole executions\<close>

lemma run_all_events: "list_all (notebook_event lib) (snd (run_all lib w))"
proof -
  obtain r s' where run: "notebook lib (fresh w) = (r, s')" by (cases "notebook lib (fresh w)")
  from only_eventsD[OF notebook_events run] have "list_all (notebook_event lib) (trace s')"
    by (auto simp: fresh_def)
  with run show ?thesis by (simp add: run_all_def)
qed

lemma run_all_event:
  "(c, out) \<in> set (snd (run_all lib w)) \<Longrightarrow> notebook_event lib (c, out)"
  using run_all_events[of lib w] by (simp add: list_all_iff)

lemma run_all_call: "(c, out) \<in> set (snd (run_all lib w)) \<Longrightarrow> notebook_call c"
  by (drule run_all_event) (simp add: notebook_event_def)

lemma run_all_justified:
  "(c, out) \<in> set (snd (run_all lib w)) \<Longrightarrow> \<exists>w1 w2. lib_apply lib c w1 = (out, w2)"
  by (drule run_all_event) (simp add: notebook_event_def justified_def)

lemma run_all_clean:
  assumes clean: "\<not> list_ex raised (snd (run_all lib w))"
  shows "\<exists>a. run_all lib w = (Inr (), complete_trace a)"
proof -
  obtain r s' where run: "notebook lib (fresh w) = (r, s')" by (cases "notebook lib (fresh w)")
  with clean have "\<not> list_ex raised (trace s')" by (simp add: run_all_def)
  from notebook_clean[OF run this] run show ?thesis
    by (simp add: run_all_def fresh_def)
qed

lemma run_all_guarded:
  assumes "never_swallows lib"
  shows "case fst (run_all lib w) of
           Inr u \<Rightarrow> \<not> list_ex raised (snd (run_all lib w))
         | Inl e \<Rightarrow> unwinds (snd (run_all lib w)) e"
proof -
  obtain r s' where run: "notebook lib (fresh w) = (r, s')" by (cases "notebook lib (fresh w)")
  then have ra: "run_all lib w = (r, trace s')" by (simp add: run_all_def)
  from guardedD[OF guarded_notebook[OF assms] run] obtain new
    where "trace s' = trace (fresh w) @ new"
      and c: "case r of Inr a \<Rightarrow> \<not> list_ex raised new | Inl e \<Rightarrow> unwinds new e" by blast
  then have "new = trace s'" by (simp add: fresh_def)
  with c show ?thesis unfolding ra by (cases r) simp_all
qed

lemmas trace_defs = run_events_def run_ended_def after_start_def named_runs_def complete_trace_def

lemma logged_params_mem:
  "(k, v) \<in> set (logged_params tr) \<Longrightarrow> \<exists>out. (Log_param k v, out) \<in> set tr"
  by (induction tr rule: logged_params.induct) auto

lemma logged_metrics_mem:
  "(k, v) \<in> set (logged_metrics tr) \<Longrightarrow> \<exists>out. (Log_metric k v, out) \<in> set tr"
  by (induction tr rule: logged_metrics.induct) auto

lemma shell_commands_mem:
  "cmd \<in> set (shell_commands tr) \<Longrightarrow> \<exists>out. (Shell cmd, out) \<in> set tr"
  by (induction tr rule: shell_commands.induct) auto

lemma answer_Returned:
  "answer wrap res = (Returned v, w') \<longleftrightarrow> (\<exists>r. res = (Inr r, w') \<and> v = wrap r)"
  by (auto simp: answer_def split: prod.splits sum.splits)

lemma complete_trace_justified:
  assumes "run_all lib w = (Inr (), complete_trace a)" and "(c, out) \<in> set (complete_trace a)"
  shows "\<exists>w1 w2. lib_apply lib c w1 = (out, w2)"
  using run_all_justified[of c out lib w] assms by simp

lemma complete_trace_answers:
  assumes tr: "run_all lib w = (Inr (), complete_trace a)"
  shows "\<exists>w1 w2. sklearn_load_iris lib w1 = (Inr (got_features a, got_target a), w2)"
    and "\<exists>w1 w2. sklearn_fit_predict lib (KMeans 3 (Some 42)) (got_features a) w1 =
           (Inr (got_labels_6 a), w2)"
    and "\<exists>w1 w2. sklearn_silhouette_score lib (got_features a) (labels_of (got_model_k2 a)) w1 =
           (Inr (got_score_k2 a), w2)"
    and "\<exists>w1 w2. sklearn_silhouette_score lib (got_features a) (labels_of (got_model_k3 a)) w1 =
           (Inr (got_score_k3 a), w2)"
    and "\<exists>w1 w2. sklearn_davies_bouldin_score lib (got_features a) (labels_of (got_model_k3 a)) w1 =
           (Inr (got_score_2_k3 a), w2)"
    and "\<exists>w1 w2. sklearn_silhouette_score lib (got_features a) (labels_of (got_model_db a)) w1 =
           (Inr (got_score_db a), w2)"
    and "\<exists>w1 w2. sklearn_fit lib (KMeans 2 None) (got_features a) w1 = (Inr (got_model_k2 a), w2)"
    and "\<exists>w1 w2. sklearn_fit lib (KMeans 3 None) (got_features a) w1 = (Inr (got_model_k3 a), w2)"
proof -
  show "\<exists>w1 w2. sklearn_fit lib (KMeans 2 None) (got_features a) w1 = (Inr (got_model_k2 a), w2)"
    using complete_trace_justified[OF tr, of "Fit (KMeans 2 None) (got_features a)"
        "Returned (RFitted (got_model_k2 a))"]
    by (simp add: complete_trace_def answer_Returned)
  show "\<exists>w1 w2. sklearn_fit lib (KMeans 3 None) (got_features a) w1 = (Inr (got_model_k3 a), w2)"
    using complete_trace_justified[OF tr, of "Fit (KMeans 3 None) (got_features a)"
        "Returned (RFitted (got_model_k3 a))"]
    by (simp add: complete_trace_def answer_Returned)
  show "\<exists>w1 w2. sklearn_load_iris lib w1 = (Inr (got_features a, got_target a), w2)"
    using complete_trace_justified[OF tr, of Load_iris "Returned (RBunch (got_features a) (got_target a))"]
    by (auto simp: complete_trace_def answer_Returned)
  show "\<exists>w1 w2. sklearn_fit_predict lib (KMeans 3 (Some 42)) (got_features a) w1 =
           (Inr (got_labels_6 a), w2)"
    using complete_trace_justified[OF tr, of "Fit_predict (KMeans 3 (Some 42)) (got_features a)"
        "Returned (RLabels (got_labels_6 a))"]
    by (simp add: complete_trace_def answer_Returned)
  show "\<exists>w1 w2. sklearn_silhouette_score lib (got_features a) (labels_of (got_model_k2 a)) w1 =
           (Inr (got_score_k2 a), w2)"
    using complete_trace_justified[OF tr, of "Silhouette_score (got_features a) (labels_of (got_model_k2 a))"
        "Returned (RFloat (got_score_k2 a))"]
    by (simp add: complete_trace_def answer_Returned)
  show "\<exists>w1 w2. sklearn_silhouette_score lib (got_features a) (labels_of (got_model_k3 a)) w1 =
           (Inr (got_score_k3 a), w2)"
    using complete_trace_justified[OF tr, of "Silhouette_score (got_features a) (labels_of (got_model_k3 a))"
        "Returned (RFloat (got_score_k3 a))"]
    by (simp add: complete_trace_def answer_Returned)
  show "\<exists>w1 w2. sklearn_davies_bouldin_score lib (got_features a) (labels_of (got_model_k3 a)) w1 =
           (Inr (got_score_2_k3 a), w2)"
    using complete_trace_justified[OF tr, of "Davies_bouldin_score (got_features a) (labels_of (got_model_k3 a))"
        "Returned (RFloat (got_score_2_k3 a))"]
    by (simp add: complete_trace_def answer_Returned)
  show "\<exists>w1 w2. sklearn_silhouette_score lib (got_features a) (labels_of (got_model_db a)) w1 =
           (Inr (got_score_db a), w2)"
    using complete_trace_justified[OF tr, of "Silhouette_score (got_features a) (labels_of (got_model_db a))"
        "Returned (RFloat (got_score_db a))"]
    by (simp add: complete_trace_def answer_Returned)
qed

section \<open>The two libraries, run\<close>

lemma demo_run: "run_all demo_lib w = (Inr (), complete_trace (demo_returns w))"
  by (simp add: run_all_def notebook_def cell_defs call_defs with_run_def andthen_def invoke_def
      ret_def throw_def fresh_def demo_lib_def Let_def complete_trace_def demo_returns_def
      numeral_2_eq_2)

lemma demo_clean: "\<not> list_ex raised (snd (run_all demo_lib w))"
  by (simp add: demo_run complete_trace_def)

lemma failing_run:
  "run_all failing_lib 0 = (Inl (Exception ''MlflowException''),
     butlast (butlast (butlast (butlast (complete_trace (demo_returns 0))))) @
     [(Log_model (Fitted (DBSCAN (1/2) 5) [- 1, - 1]) ''Clustering_Model'' [[1, 2]],
         Raised (Exception ''MlflowException'')),
      (Exit_run (Some (Exception ''MlflowException'')), Returned (RBool False))])"
  by (simp add: run_all_def notebook_def cell_defs call_defs with_run_def andthen_def invoke_def
      ret_def throw_def fresh_def demo_lib_def failing_lib_def Let_def complete_trace_def
      demo_returns_def numeral_2_eq_2)

lemma failing_never_swallows: "never_swallows failing_lib"
  by (simp add: never_swallows_def failing_lib_def demo_lib_def)

section \<open>The properties of the specification\<close>

text \<open>
  In all that follows \<open>run_all lib w\<close> is an execution of the whole notebook on the
  library \<open>lib\<close> from the world \<open>w\<close>, and \<open>\<not> list_ex raised (snd (run_all lib w))\<close> says
  that no library call raised in it.
\<close>

text \<open>
  C1. In an execution in which no call raised, the runs the notebook starts are
  \<open>Kmeans - K=2\<close>, \<open>Kmeans - K=3\<close> and \<open>DBSCAN\<close>, and each of them, between its start and the
  call of \<open>mlflow.end_run()\<close> that ends it, logs at least one parameter, at least one
  metric and exactly one model.
\<close>

theorem each_run_logs_param_metric_model:
  assumes "\<not> list_ex raised (snd (run_all lib w))"
  shows "started_runs (snd (run_all lib w)) = named_runs \<and>
    (\<forall>name \<in> set named_runs.
       logged_params (run_events name (snd (run_all lib w))) \<noteq> [] \<and>
       logged_metrics (run_events name (snd (run_all lib w))) \<noteq> [] \<and>
       length (logged_models (run_events name (snd (run_all lib w)))) = 1 \<and>
       run_ended name (snd (run_all lib w)))"
  using run_all_clean[OF assms] by (elim exE) (simp add: trace_defs)

theorem each_run_logs_param_metric_model_witness:
  "\<not> list_ex raised (snd (run_all demo_lib 0)) \<and>
   started_runs (snd (run_all demo_lib 0)) = [''Kmeans - K=2'', ''Kmeans - K=3'', ''DBSCAN''] \<and>
   logged_params (run_events ''Kmeans - K=2'' (snd (run_all demo_lib 0))) \<noteq> [] \<and>
   logged_metrics (run_events ''Kmeans - K=2'' (snd (run_all demo_lib 0))) \<noteq> [] \<and>
   length (logged_models (run_events ''Kmeans - K=2'' (snd (run_all demo_lib 0)))) = 1 \<and>
   run_ended ''Kmeans - K=2'' (snd (run_all demo_lib 0)) \<and>
   logged_params (run_events ''Kmeans - K=3'' (snd (run_all demo_lib 0))) \<noteq> [] \<and>
   logged_metrics (run_events ''Kmeans - K=3'' (snd (run_all demo_lib 0))) \<noteq> [] \<and>
   length (logged_models (run_events ''Kmeans - K=3'' (snd (run_all demo_lib 0)))) = 1 \<and>
   run_ended ''Kmeans - K=3'' (snd (run_all demo_lib 0)) \<and>
   logged_params (run_events ''DBSCAN'' (snd (run_all demo_lib 0))) \<noteq> [] \<and>
   logged_metrics (run_events ''DBSCAN'' (snd (run_all demo_lib 0))) \<noteq> [] \<and>
   length (logged_models (run_events ''DBSCAN'' (snd (run_all demo_lib 0)))) = 1 \<and>
   run_ended ''DBSCAN'' (snd (run_all demo_lib 0))"
  using demo_clean[of 0] each_run_logs_param_metric_model[OF demo_clean, of 0]
  by (simp add: named_runs_def)

text \<open>
  C2, as stated: every experiment block logs exactly three values. It fails whichever way
  the values are counted. Counting every \<open>log_param\<close>, \<open>log_metric\<close> and \<open>log_model\<close> call,
  the run \<open>Kmeans - K=3\<close> logs four values, not three: one parameter, two metrics and one
  model. Counting parameters and metrics only, the run \<open>Kmeans - K=2\<close> logs two.
\<close>

theorem three_values_counterexample:
  "length (logged_values (run_events ''Kmeans - K=3'' (snd (run_all demo_lib 0)))) \<noteq> 3 \<and>
   length (logged_params (run_events ''Kmeans - K=2'' (snd (run_all demo_lib 0)))) +
     length (logged_metrics (run_events ''Kmeans - K=2'' (snd (run_all demo_lib 0)))) \<noteq> 3"
  by (simp add: demo_run trace_defs demo_returns_def logged_values_def api_calls_def)

text \<open>
  C2, amended. The data is loaded once, before the first run, and not again. Each run
  then fits its model, computes the silhouette score (the run \<open>Kmeans - K=3\<close> the
  Davies-Bouldin score as well), logs its parameters and metrics, builds the input
  example and logs the model. The run \<open>Kmeans - K=2\<close> logs three values, the runs
  \<open>Kmeans - K=3\<close> and \<open>DBSCAN\<close> four each.
\<close>

theorem run_blocks_sequence:
  assumes "\<not> list_ex raised (snd (run_all lib w))"
  shows "api_calls (takeWhile (\<lambda>ev. api_name (fst ev) \<noteq> ''start_run'') (snd (run_all lib w))) =
           [''load_iris'', ''autolog'', ''fit_predict'', ''fit_predict'', ''create_experiment''] \<and>
         \<not> list_ex (\<lambda>ev. fst ev = Load_iris)
             (dropWhile (\<lambda>ev. api_name (fst ev) \<noteq> ''start_run'') (snd (run_all lib w))) \<and>
         api_calls (run_events ''Kmeans - K=2'' (snd (run_all lib w))) =
           [''fit'', ''silhouette_score'', ''log_param'', ''log_metric'',
            ''__getitem__'', ''array'', ''log_model''] \<and>
         api_calls (run_events ''Kmeans - K=3'' (snd (run_all lib w))) =
           [''fit'', ''silhouette_score'', ''davies_bouldin_score'', ''log_param'', ''log_metric'',
            ''log_metric'', ''__getitem__'', ''array'', ''log_model''] \<and>
         api_calls (run_events ''DBSCAN'' (snd (run_all lib w))) =
           [''fit'', ''silhouette_score'', ''log_param'', ''log_param'', ''log_metric'',
            ''__getitem__'', ''array'', ''log_model''] \<and>
         length (logged_values (run_events ''Kmeans - K=2'' (snd (run_all lib w)))) = 3 \<and>
         length (logged_values (run_events ''Kmeans - K=3'' (snd (run_all lib w)))) = 4 \<and>
         length (logged_values (run_events ''DBSCAN'' (snd (run_all lib w)))) = 4"
  using run_all_clean[OF assms]
  by (elim exE) (simp add: trace_defs logged_values_def api_calls_def)

theorem run_blocks_sequence_witness:
  "\<not> list_ex raised (snd (run_all demo_lib 0)) \<and>
   length (logged_values (run_events ''Kmeans - K=2'' (snd (run_all demo_lib 0)))) = 3 \<and>
   length (logged_values (run_events ''Kmeans - K=3'' (snd (run_all demo_lib 0)))) = 4 \<and>
   length (logged_values (run_events ''DBSCAN'' (snd (run_all demo_lib 0)))) = 4"
  using demo_clean[of 0] run_blocks_sequence[OF demo_clean, of 0] by simp

text \<open>
  C3. Provided the exit of mlflow's run object never swallows an exception: when a
  library call raises, the execution of the notebook ends with an exception; the exception
  it ends with was raised by a library call; and after the first call that raised the
  notebook calls nothing again, except that the exit of the enclosing \<open>with\<close> block is
  given the exception.
\<close>

theorem exceptions_propagate:
  assumes "never_swallows lib"
  shows "(list_ex raised (snd (run_all lib w)) \<longrightarrow> (\<exists>e. fst (run_all lib w) = Inl e)) \<and>
         (\<forall>e. fst (run_all lib w) = Inl e \<longrightarrow> (\<exists>c. (c, Raised e) \<in> set (snd (run_all lib w)))) \<and>
         no_recovery (snd (run_all lib w))"
proof (cases "fst (run_all lib w)")
  case (Inr u)
  with run_all_guarded[OF assms, of w] have clean: "\<not> list_ex raised (snd (run_all lib w))"
    by simp
  then have dw: "dropWhile (\<lambda>ev. \<not> raised ev) (snd (run_all lib w)) = []"
    by (simp add: list_ex_iff)
  have "no_recovery (snd (run_all lib w))" unfolding no_recovery_def dw by simp
  with clean Inr show ?thesis by simp
next
  case (Inl e)
  with run_all_guarded[OF assms, of w] have "unwinds (snd (run_all lib w)) e" by simp
  then consider pre c where "snd (run_all lib w) = pre @ [(c, Raised e)]" "\<not> list_ex raised pre"
    | pre c out e0 where "snd (run_all lib w) = pre @ [(c, Raised e0), (Exit_run (Some e0), out)]"
        "\<not> list_ex raised pre" "out = Raised e \<or> out = Returned (RBool False) \<and> e = e0"
    unfolding unwinds_def stops_at_def by blast
  then show ?thesis
  proof cases
    case 1
    from 1(2) have dw: "dropWhile (\<lambda>ev. \<not> raised ev) (pre @ [(c, Raised e)]) = [(c, Raised e)]"
      by (simp add: dropWhile_append list_ex_iff)
    have "no_recovery (snd (run_all lib w))" unfolding no_recovery_def 1(1) dw by simp
    with 1(1) Inl show ?thesis by auto
  next
    case 2
    from 2(2) have dw: "dropWhile (\<lambda>ev. \<not> raised ev) (pre @ [(c, Raised e0), (Exit_run (Some e0), out)])
        = [(c, Raised e0), (Exit_run (Some e0), out)]"
      by (simp add: dropWhile_append list_ex_iff)
    have nr: "no_recovery (snd (run_all lib w))"
      unfolding no_recovery_def 2(1) dw by (simp add: error_of_def)
    from 2(1) 2(3) have "\<exists>c. (c, Raised e) \<in> set (snd (run_all lib w))" by auto
    with nr 2(1) Inl show ?thesis by auto
  qed
qed

theorem exceptions_propagate_witness:
  "never_swallows failing_lib \<and>
   list_ex raised (snd (run_all failing_lib 0)) \<and>
   fst (run_all failing_lib 0) = Inl (Exception ''MlflowException'') \<and>
   no_recovery (snd (run_all failing_lib 0))"
  using failing_never_swallows exceptions_propagate[OF failing_never_swallows, of 0]
  by (simp add: failing_run complete_trace_def)

text \<open>
  C4. In any execution, whether or not a call raised, a parameter is only ever logged under
  the key \<open>value_of_k\<close>, \<open>min_samples\<close> or \<open>eps\<close> and a metric only under \<open>silhoutte_score\<close> or
  \<open>davies_bouldin_score\<close>. In an execution in which no call raised the parameters logged
  are \<open>value_of_k = 2\<close>, \<open>value_of_k = 3\<close>, \<open>min_samples = 5\<close> and \<open>eps = 0.5\<close>, and the scores
  computed are three silhouette scores and one Davies-Bouldin score. The
  \<open>random_state=42\<close> of cell 6 is passed to the constructor and never to \<open>log_param\<close>.
\<close>

theorem only_three_hyperparameters_two_scores:
  "set (map fst (logged_params (snd (run_all lib w)))) \<subseteq> {''value_of_k'', ''min_samples'', ''eps''} \<and>
   set (map fst (logged_metrics (snd (run_all lib w)))) \<subseteq> {''silhoutte_score'', ''davies_bouldin_score''} \<and>
   (\<not> list_ex raised (snd (run_all lib w)) \<longrightarrow>
      logged_params (snd (run_all lib w)) =
        [(''value_of_k'', PyInt 2), (''value_of_k'', PyInt 3), (''min_samples'', PyInt 5),
         (''eps'', PyFloat (1/2))] \<and>
      score_calls (snd (run_all lib w)) =
        [''silhouette_score'', ''silhouette_score'', ''davies_bouldin_score'', ''silhouette_score''] \<and>
      map fst (logged_metrics (snd (run_all lib w))) =
        [''silhoutte_score'', ''silhoutte_score'', ''davies_bouldin_score'', ''silhoutte_score''])"
proof (intro conjI impI)
  show "set (map fst (logged_params (snd (run_all lib w)))) \<subseteq> {''value_of_k'', ''min_samples'', ''eps''}"
  proof
    fix k assume "k \<in> set (map fst (logged_params (snd (run_all lib w))))"
    then obtain v where "(k, v) \<in> set (logged_params (snd (run_all lib w)))" by auto
    then obtain out where "(Log_param k v, out) \<in> set (snd (run_all lib w))"
      using logged_params_mem by blast
    then have "notebook_call (Log_param k v)" by (rule run_all_call)
    then show "k \<in> {''value_of_k'', ''min_samples'', ''eps''}" by auto
  qed
  show "set (map fst (logged_metrics (snd (run_all lib w)))) \<subseteq> {''silhoutte_score'', ''davies_bouldin_score''}"
  proof
    fix k assume "k \<in> set (map fst (logged_metrics (snd (run_all lib w))))"
    then obtain v where "(k, v) \<in> set (logged_metrics (snd (run_all lib w)))" by auto
    then obtain out where "(Log_metric k v, out) \<in> set (snd (run_all lib w))"
      using logged_metrics_mem by blast
    then have "notebook_call (Log_metric k v)" by (rule run_all_call)
    then show "k \<in> {''silhoutte_score'', ''davies_bouldin_score''}" by auto
  qed
next
  assume clean: "\<not> list_ex raised (snd (run_all lib w))"
  show "logged_params (snd (run_all lib w)) =
        [(''value_of_k'', PyInt 2), (''value_of_k'', PyInt 3), (''min_samples'', PyInt 5),
         (''eps'', PyFloat (1/2))]"
    using run_all_clean[OF clean] by (elim exE) (simp add: complete_trace_def)
  show "score_calls (snd (run_all lib w)) =
        [''silhouette_score'', ''silhouette_score'', ''davies_bouldin_score'', ''silhouette_score'']"
    using run_all_clean[OF clean]
    by (elim exE) (simp add: complete_trace_def score_calls_def api_calls_def)
  show "map fst (logged_metrics (snd (run_all lib w))) =
        [''silhoutte_score'', ''silhoutte_score'', ''davies_bouldin_score'', ''silhoutte_score'']"
    using run_all_clean[OF clean] by (elim exE) (simp add: complete_trace_def)
qed

theorem only_three_hyperparameters_two_scores_witness:
  "\<not> list_ex raised (snd (run_all demo_lib 0)) \<and>
   logged_params (snd (run_all demo_lib 0)) =
     [(''value_of_k'', PyInt 2), (''value_of_k'', PyInt 3), (''min_samples'', PyInt 5),
      (''eps'', PyFloat (1/2))] \<and>
   score_calls (snd (run_all demo_lib 0)) =
     [''silhouette_score'', ''silhouette_score'', ''davies_bouldin_score'', ''silhouette_score'']"
  using demo_clean[of 0]
    only_three_hyperparameters_two_scores[of demo_lib 0, THEN conjunct2, THEN conjunct2, THEN mp,
      OF demo_clean]
  by (elim conjE) (intro conjI, assumption+)

text \<open>
  C6. In any execution every call is one of the notebook's call sites (library calls of
  scikit-learn, numpy and mlflow, and the shell escape), and a shell command, if one is
  run, is \<open>mlflow ui\<close>: the program \<open>mlflow\<close> with the one word \<open>ui\<close>, so without a port or
  any other argument. In an execution in which no call raised exactly one shell command
  is run.
\<close>

theorem single_shell_command_no_arguments:
  "list_all (\<lambda>ev. notebook_call (fst ev)) (snd (run_all lib w)) \<and>
   (\<forall>cmd \<in> set (shell_commands (snd (run_all lib w))).
      cmd = ''mlflow ui'' \<and> argv cmd = [''mlflow'', ''ui'']) \<and>
   (\<not> list_ex raised (snd (run_all lib w)) \<longrightarrow> shell_commands (snd (run_all lib w)) = [''mlflow ui''])"
proof (intro conjI impI ballI)
  show "list_all (\<lambda>ev. notebook_call (fst ev)) (snd (run_all lib w))"
    using run_all_events[of lib w] by (auto simp: list_all_iff notebook_event_def)
next
  fix cmd assume "cmd \<in> set (shell_commands (snd (run_all lib w)))"
  then obtain out where "(Shell cmd, out) \<in> set (snd (run_all lib w))"
    using shell_commands_mem by blast
  then have "notebook_call (Shell cmd)" by (rule run_all_call)
  then show c: "cmd = ''mlflow ui''" by simp
  show "argv cmd = [''mlflow'', ''ui'']" unfolding c by (simp add: argv_def)
next
  assume clean: "\<not> list_ex raised (snd (run_all lib w))"
  show "shell_commands (snd (run_all lib w)) = [''mlflow ui'']"
    using run_all_clean[OF clean] by (elim exE) (simp add: complete_trace_def)
qed

theorem single_shell_command_no_arguments_witness:
  "\<not> list_ex raised (snd (run_all demo_lib 0)) \<and>
   shell_commands (snd (run_all demo_lib 0)) = [''mlflow ui''] \<and>
   argv (hd (shell_commands (snd (run_all demo_lib 0)))) = [''mlflow'', ''ui'']"
proof -
  have sc: "shell_commands (snd (run_all demo_lib 0)) = [''mlflow ui'']"
    using single_shell_command_no_arguments[of demo_lib 0, THEN conjunct2, THEN conjunct2,
      THEN mp, OF demo_clean] .
  show ?thesis unfolding sc using demo_clean[of 0] by (simp add: argv_def)
qed

text \<open>
  C8. In any execution no metric is ever logged under the key \<open>silhouette_score\<close>. In an
  execution in which no call raised, each of the three runs logs, under the key
  \<open>silhoutte_score\<close>, the value its call of \<open>silhouette_score\<close> returned, and this is its only
  metric apart from \<open>davies_bouldin_score\<close>.
\<close>

theorem silhouette_key_misspelled:
  "''silhouette_score'' \<notin> set (map fst (logged_metrics (snd (run_all lib w)))) \<and>
   (\<not> list_ex raised (snd (run_all lib w)) \<longrightarrow>
      (\<forall>name \<in> set named_runs.
         \<exists>v X l. filter (\<lambda>kv. fst kv \<noteq> ''davies_bouldin_score'')
                    (logged_metrics (run_events name (snd (run_all lib w)))) = [(''silhoutte_score'', v)] \<and>
                 (Silhouette_score X l, Returned (RFloat v)) \<in> set (run_events name (snd (run_all lib w)))))"
proof (intro conjI impI)
  show "''silhouette_score'' \<notin> set (map fst (logged_metrics (snd (run_all lib w))))"
  proof
    assume "''silhouette_score'' \<in> set (map fst (logged_metrics (snd (run_all lib w))))"
    then obtain v where "(''silhouette_score'', v) \<in> set (logged_metrics (snd (run_all lib w)))" by auto
    then obtain out where "(Log_metric ''silhouette_score'' v, out) \<in> set (snd (run_all lib w))"
      using logged_metrics_mem by blast
    then have "notebook_call (Log_metric ''silhouette_score'' v)" by (rule run_all_call)
    then show False by simp
  qed
next
  assume clean: "\<not> list_ex raised (snd (run_all lib w))"
  show "\<forall>name \<in> set named_runs.
         \<exists>v X l. filter (\<lambda>kv. fst kv \<noteq> ''davies_bouldin_score'')
                    (logged_metrics (run_events name (snd (run_all lib w)))) = [(''silhoutte_score'', v)] \<and>
                 (Silhouette_score X l, Returned (RFloat v)) \<in> set (run_events name (snd (run_all lib w)))"
    using run_all_clean[OF clean] by (elim exE) (simp add: trace_defs)
qed

theorem silhouette_key_misspelled_witness:
  "\<not> list_ex raised (snd (run_all demo_lib 0)) \<and>
   ''silhouette_score'' \<notin> set (map fst (logged_metrics (snd (run_all demo_lib 0)))) \<and>
   map fst (logged_metrics (run_events ''Kmeans - K=2'' (snd (run_all demo_lib 0)))) = [''silhoutte_score''] \<and>
   map fst (logged_metrics (run_events ''Kmeans - K=3'' (snd (run_all demo_lib 0)))) =
     [''silhoutte_score'', ''davies_bouldin_score''] \<and>
   map fst (logged_metrics (run_events ''DBSCAN'' (snd (run_all demo_lib 0)))) = [''silhoutte_score'']"
  using demo_clean[of 0] silhouette_key_misspelled[of demo_lib 0]
  by (simp add: demo_run trace_defs)

text \<open>
  C9. In an execution in which no call raised, each of the three runs fits one estimator,
  and every parameter it logs has the value of the constructor argument it stands for:
  \<open>value_of_k\<close> is \<open>n_clusters\<close> (2, then 3), \<open>eps\<close> is 0.5 and \<open>min_samples\<close> is 5.
\<close>

theorem logged_params_match_constructor:
  assumes "\<not> list_ex raised (snd (run_all lib w))"
  shows "(\<forall>name \<in> set named_runs.
           \<exists>est. fitted_estimators (run_events name (snd (run_all lib w))) = [est] \<and>
             (\<forall>kv \<in> set (logged_params (run_events name (snd (run_all lib w)))).
                ctor_arg est (arg_of_param (fst kv)) = Some (snd kv))) \<and>
         fitted_estimators (run_events ''Kmeans - K=2'' (snd (run_all lib w))) = [KMeans 2 None] \<and>
         logged_params (run_events ''Kmeans - K=2'' (snd (run_all lib w))) = [(''value_of_k'', PyInt 2)] \<and>
         fitted_estimators (run_events ''Kmeans - K=3'' (snd (run_all lib w))) = [KMeans 3 None] \<and>
         logged_params (run_events ''Kmeans - K=3'' (snd (run_all lib w))) = [(''value_of_k'', PyInt 3)] \<and>
         fitted_estimators (run_events ''DBSCAN'' (snd (run_all lib w))) = [DBSCAN (1/2) 5] \<and>
         logged_params (run_events ''DBSCAN'' (snd (run_all lib w))) =
           [(''min_samples'', PyInt 5), (''eps'', PyFloat (1/2))]"
  using run_all_clean[OF assms] by (elim exE) (simp add: trace_defs arg_of_param_def)

theorem logged_params_match_constructor_witness:
  "\<not> list_ex raised (snd (run_all demo_lib 0)) \<and>
   fitted_estimators (run_events ''Kmeans - K=2'' (snd (run_all demo_lib 0))) = [KMeans 2 None] \<and>
   logged_params (run_events ''Kmeans - K=2'' (snd (run_all demo_lib 0))) = [(''value_of_k'', PyInt 2)] \<and>
   fitted_estimators (run_events ''Kmeans - K=3'' (snd (run_all demo_lib 0))) = [KMeans 3 None] \<and>
   logged_params (run_events ''Kmeans - K=3'' (snd (run_all demo_lib 0))) = [(''value_of_k'', PyInt 3)] \<and>
   fitted_estimators (run_events ''DBSCAN'' (snd (run_all demo_lib 0))) = [DBSCAN (1/2) 5] \<and>
   logged_params (run_events ''DBSCAN'' (snd (run_all demo_lib 0))) =
     [(''min_samples'', PyInt 5), (''eps'', PyFloat (1/2))]"
  using demo_clean[of 0] logged_params_match_constructor[OF demo_clean, of 0] by simp

text \<open>
  C5. In an execution in which no call raised, every run logs a metric, and every metric
  a run logs is the value that the library's \<open>silhouette_score\<close> (for the key
  \<open>silhoutte_score\<close>) or \<open>davies_bouldin_score\<close> (for the key \<open>davies_bouldin_score\<close>) returned
  in that run on the loaded features and the labels of the model the run fitted. The
  library is arbitrary, so the notebook computes nothing of the value itself.
\<close>

theorem metrics_come_from_library:
  assumes "\<not> list_ex raised (snd (run_all lib w))"
  shows "\<forall>name \<in> set named_runs.
           logged_metrics (run_events name (snd (run_all lib w))) \<noteq> [] \<and>
           (\<forall>kv \<in> set (logged_metrics (run_events name (snd (run_all lib w)))).
              metric_from_library lib (snd (run_all lib w)) (run_events name (snd (run_all lib w))) kv)"
proof -
  from run_all_clean[OF assms] obtain a where tr: "run_all lib w = (Inr (), complete_trace a)"
    by blast
  note ans = complete_trace_answers[OF tr]
  have lm2: "logged_metrics (run_events ''Kmeans - K=2'' (complete_trace a)) =
      [(''silhoutte_score'', got_score_k2 a)]"
    by (simp add: trace_defs)
  have lm3: "logged_metrics (run_events ''Kmeans - K=3'' (complete_trace a)) =
      [(''silhoutte_score'', got_score_k3 a), (''davies_bouldin_score'', got_score_2_k3 a)]"
    by (simp add: trace_defs)
  have lm4: "logged_metrics (run_events ''DBSCAN'' (complete_trace a)) =
      [(''silhoutte_score'', got_score_db a)]"
    by (simp add: trace_defs)
  have k2: "metric_from_library lib (complete_trace a)
      (run_events ''Kmeans - K=2'' (complete_trace a)) (''silhoutte_score'', got_score_k2 a)"
    unfolding metric_from_library_def using ans(3)
    by (intro exI[of _ "got_features a"] exI[of _ "got_target a"] exI[of _ "KMeans 2 None"]
        exI[of _ "got_model_k2 a"]) (simp add: trace_defs)
  have k3s: "metric_from_library lib (complete_trace a)
      (run_events ''Kmeans - K=3'' (complete_trace a)) (''silhoutte_score'', got_score_k3 a)"
    unfolding metric_from_library_def using ans(4)
    by (intro exI[of _ "got_features a"] exI[of _ "got_target a"] exI[of _ "KMeans 3 None"]
        exI[of _ "got_model_k3 a"]) (simp add: trace_defs)
  have k3d: "metric_from_library lib (complete_trace a)
      (run_events ''Kmeans - K=3'' (complete_trace a)) (''davies_bouldin_score'', got_score_2_k3 a)"
    unfolding metric_from_library_def using ans(5)
    by (intro exI[of _ "got_features a"] exI[of _ "got_target a"] exI[of _ "KMeans 3 None"]
        exI[of _ "got_model_k3 a"]) (simp add: trace_defs)
  have db: "metric_from_library lib (complete_trace a)
      (run_events ''DBSCAN'' (complete_trace a)) (''silhoutte_score'', got_score_db a)"
    unfolding metric_from_library_def using ans(6)
    by (intro exI[of _ "got_features a"] exI[of _ "got_target a"] exI[of _ "DBSCAN (1/2) 5"]
        exI[of _ "got_model_db a"]) (simp add: trace_defs)
  show ?thesis
    by (simp add: tr named_runs_def lm2 lm3 lm4 k2 k3s k3d db)
qed

theorem metrics_come_from_library_witness:
  "\<not> list_ex raised (snd (run_all demo_lib 0)) \<and>
   metric_from_library demo_lib (snd (run_all demo_lib 0))
     (run_events ''Kmeans - K=3'' (snd (run_all demo_lib 0))) (''davies_bouldin_score'', 3)"
proof -
  note t = metrics_come_from_library[OF demo_clean, of 0]
  have n: "''Kmeans - K=3'' \<in> set named_runs" by (simp add: named_runs_def)
  have "\<forall>kv \<in> set (logged_metrics (run_events ''Kmeans - K=3'' (snd (run_all demo_lib 0)))).
      metric_from_library demo_lib (snd (run_all demo_lib 0))
        (run_events ''Kmeans - K=3'' (snd (run_all demo_lib 0))) kv"
    using bspec[OF t n] by (rule conjunct2)
  moreover have "(''davies_bouldin_score'', 3) \<in>
      set (logged_metrics (run_events ''Kmeans - K=3'' (snd (run_all demo_lib 0))))"
    by (simp add: demo_run trace_defs demo_returns_def)
  ultimately have "metric_from_library demo_lib (snd (run_all demo_lib 0))
     (run_events ''Kmeans - K=3'' (snd (run_all demo_lib 0))) (''davies_bouldin_score'', 3)"
    by (rule bspec)
  with demo_clean[of 0] show ?thesis by (rule conjI)
qed

lemma demo_contract:
  "seeded_kmeans_deterministic demo_lib" "load_iris_fixed demo_lib" "scores_deterministic demo_lib"
  by (simp_all add: seeded_kmeans_deterministic_def load_iris_fixed_def scores_deterministic_def
      demo_lib_def)

text \<open>
  C10. In an execution in which no call raised, the calls on a KMeans are, in order, the
  \<open>fit_predict\<close> of cell 6 on \<open>KMeans(n_clusters=3, random_state=42)\<close> and the \<open>fit\<close> of the runs
  \<open>Kmeans - K=2\<close> and \<open>Kmeans - K=3\<close> on \<open>KMeans(n_clusters=2)\<close> and \<open>KMeans(n_clusters=3)\<close>, which
  have no \<open>random_state\<close>. So one call is seeded, with 42, and if the library's seeded KMeans
  is deterministic and its data set fixed, that call returns the same in any two such
  executions. The labels fitted in the two named runs are the same in two executions if
  the library's KMeans is deterministic without a seed too. That is not guaranteed: there
  is a library with a deterministic seeded KMeans, a fixed data set and scores that
  depend on their arguments only, and two executions on it with the same result of the
  seeded call, in which the labels fitted in the run \<open>Kmeans - K=2\<close> differ and so do the
  metrics it logs, and likewise for the run \<open>Kmeans - K=3\<close>.
\<close>

theorem kmeans_random_state:
  assumes c1: "\<not> list_ex raised (snd (run_all lib w1))"
    and c2: "\<not> list_ex raised (snd (run_all lib w2))"
  shows "kmeans_calls (snd (run_all lib w1)) =
           [(''fit_predict'', KMeans 3 (Some 42)), (''fit'', KMeans 2 None), (''fit'', KMeans 3 None)] \<and>
         fitted_estimators (run_events ''Kmeans - K=2'' (snd (run_all lib w1))) = [KMeans 2 None] \<and>
         fitted_estimators (run_events ''Kmeans - K=3'' (snd (run_all lib w1))) = [KMeans 3 None] \<and>
         length (seeded_kmeans_results (snd (run_all lib w1))) = 1 \<and>
         length (fitted_labels (run_events ''Kmeans - K=2'' (snd (run_all lib w1)))) = 1 \<and>
         length (fitted_labels (run_events ''Kmeans - K=3'' (snd (run_all lib w1)))) = 1 \<and>
         (seeded_kmeans_deterministic lib \<and> load_iris_fixed lib \<longrightarrow>
            seeded_kmeans_results (snd (run_all lib w1)) = seeded_kmeans_results (snd (run_all lib w2))) \<and>
         (unseeded_kmeans_deterministic lib \<and> load_iris_fixed lib \<longrightarrow>
            fitted_labels (run_events ''Kmeans - K=2'' (snd (run_all lib w1))) =
              fitted_labels (run_events ''Kmeans - K=2'' (snd (run_all lib w2))) \<and>
            fitted_labels (run_events ''Kmeans - K=3'' (snd (run_all lib w1))) =
              fitted_labels (run_events ''Kmeans - K=3'' (snd (run_all lib w2)))) \<and>
         (\<exists>(lib' :: nat library) u1 u2.
            seeded_kmeans_deterministic lib' \<and> load_iris_fixed lib' \<and> scores_deterministic lib' \<and>
            \<not> list_ex raised (snd (run_all lib' u1)) \<and> \<not> list_ex raised (snd (run_all lib' u2)) \<and>
            seeded_kmeans_results (snd (run_all lib' u1)) = seeded_kmeans_results (snd (run_all lib' u2)) \<and>
            fitted_labels (run_events ''Kmeans - K=2'' (snd (run_all lib' u1))) \<noteq>
              fitted_labels (run_events ''Kmeans - K=2'' (snd (run_all lib' u2))) \<and>
            logged_metrics (run_events ''Kmeans - K=2'' (snd (run_all lib' u1))) \<noteq>
              logged_metrics (run_events ''Kmeans - K=2'' (snd (run_all lib' u2))) \<and>
            fitted_labels (run_events ''Kmeans - K=3'' (snd (run_all lib' u1))) \<noteq>
              fitted_labels (run_events ''Kmeans - K=3'' (snd (run_all lib' u2))) \<and>
            logged_metrics (run_events ''Kmeans - K=3'' (snd (run_all lib' u1))) \<noteq>
              logged_metrics (run_events ''Kmeans - K=3'' (snd (run_all lib' u2))))"
proof -
  from run_all_clean[OF c1] obtain a1 where t1: "run_all lib w1 = (Inr (), complete_trace a1)"
    by blast
  from run_all_clean[OF c2] obtain a2 where t2: "run_all lib w2 = (Inr (), complete_trace a2)"
    by blast
  have s: "seeded_kmeans_results (complete_trace a) = [Returned (RLabels (got_labels_6 a))]" for a
    by (simp add: complete_trace_def)
  have l2: "fitted_labels (run_events ''Kmeans - K=2'' (complete_trace a)) = [labels_of (got_model_k2 a)]"
    for a by (simp add: trace_defs)
  have l3: "fitted_labels (run_events ''Kmeans - K=3'' (complete_trace a)) = [labels_of (got_model_k3 a)]"
    for a by (simp add: trace_defs)
  have X: "got_features a1 = got_features a2" if "load_iris_fixed lib"
    using complete_trace_answers(1)[OF t1] complete_trace_answers(1)[OF t2] that
    unfolding load_iris_fixed_def by (metis fst_conv sum.inject(2) prod.inject)
  have A: "kmeans_calls (snd (run_all lib w1)) =
           [(''fit_predict'', KMeans 3 (Some 42)), (''fit'', KMeans 2 None), (''fit'', KMeans 3 None)]"
    by (simp add: t1 complete_trace_def)
  have B2: "fitted_estimators (run_events ''Kmeans - K=2'' (snd (run_all lib w1))) = [KMeans 2 None]"
    by (simp add: t1 trace_defs)
  have B3: "fitted_estimators (run_events ''Kmeans - K=3'' (snd (run_all lib w1))) = [KMeans 3 None]"
    by (simp add: t1 trace_defs)
  have L: "length (seeded_kmeans_results (snd (run_all lib w1))) = 1"
    "length (fitted_labels (run_events ''Kmeans - K=2'' (snd (run_all lib w1)))) = 1"
    "length (fitted_labels (run_events ''Kmeans - K=3'' (snd (run_all lib w1)))) = 1"
    by (simp_all add: t1 s l2 l3)
  have C: "seeded_kmeans_results (snd (run_all lib w1)) = seeded_kmeans_results (snd (run_all lib w2))"
    if h: "seeded_kmeans_deterministic lib \<and> load_iris_fixed lib"
  proof -
    from complete_trace_answers(2)[OF t1] complete_trace_answers(2)[OF t2] h X
    have "got_labels_6 a1 = got_labels_6 a2"
      unfolding seeded_kmeans_deterministic_def by (metis fst_conv sum.inject(2))
    then show ?thesis by (simp add: t1 t2 s)
  qed
  have D: "fitted_labels (run_events ''Kmeans - K=2'' (snd (run_all lib w1))) =
              fitted_labels (run_events ''Kmeans - K=2'' (snd (run_all lib w2))) \<and>
           fitted_labels (run_events ''Kmeans - K=3'' (snd (run_all lib w1))) =
              fitted_labels (run_events ''Kmeans - K=3'' (snd (run_all lib w2)))"
    if h: "unseeded_kmeans_deterministic lib \<and> load_iris_fixed lib"
  proof -
    from complete_trace_answers(7)[OF t1] complete_trace_answers(7)[OF t2] h X
    have m2: "got_model_k2 a1 = got_model_k2 a2"
      unfolding unseeded_kmeans_deterministic_def by (metis fst_conv sum.inject(2))
    from complete_trace_answers(8)[OF t1] complete_trace_answers(8)[OF t2] h X
    have m3: "got_model_k3 a1 = got_model_k3 a2"
      unfolding unseeded_kmeans_deterministic_def by (metis fst_conv sum.inject(2))
    from m2 m3 show ?thesis by (simp add: t1 t2 l2 l3)
  qed
  have e1: "seeded_kmeans_results (snd (run_all demo_lib 0)) = seeded_kmeans_results (snd (run_all demo_lib 1))"
    by (simp add: demo_run s demo_returns_def)
  have e2: "fitted_labels (run_events ''Kmeans - K=2'' (snd (run_all demo_lib 0))) \<noteq>
      fitted_labels (run_events ''Kmeans - K=2'' (snd (run_all demo_lib 1)))"
    by (simp add: demo_run l2 demo_returns_def)
  have e3: "logged_metrics (run_events ''Kmeans - K=2'' (snd (run_all demo_lib 0))) \<noteq>
      logged_metrics (run_events ''Kmeans - K=2'' (snd (run_all demo_lib 1)))"
    by (simp add: demo_run trace_defs demo_returns_def)
  have e4: "fitted_labels (run_events ''Kmeans - K=3'' (snd (run_all demo_lib 0))) \<noteq>
      fitted_labels (run_events ''Kmeans - K=3'' (snd (run_all demo_lib 1)))"
    by (simp add: demo_run l3 demo_returns_def)
  have e5: "logged_metrics (run_events ''Kmeans - K=3'' (snd (run_all demo_lib 0))) \<noteq>
      logged_metrics (run_events ''Kmeans - K=3'' (snd (run_all demo_lib 1)))"
    by (simp add: demo_run trace_defs demo_returns_def)
  have E: "\<exists>(lib' :: nat library) u1 u2.
            seeded_kmeans_deterministic lib' \<and> load_iris_fixed lib' \<and> scores_deterministic lib' \<and>
            \<not> list_ex raised (snd (run_all lib' u1)) \<and> \<not> list_ex raised (snd (run_all lib' u2)) \<and>
            seeded_kmeans_results (snd (run_all lib' u1)) = seeded_kmeans_results (snd (run_all lib' u2)) \<and>
            fitted_labels (run_events ''Kmeans - K=2'' (snd (run_all lib' u1))) \<noteq>
              fitted_labels (run_events ''Kmeans - K=2'' (snd (run_all lib' u2))) \<and>
            logged_metrics (run_events ''Kmeans - K=2'' (snd (run_all lib' u1))) \<noteq>
              logged_metrics (run_events ''Kmeans - K=2'' (snd (run_all lib' u2))) \<and>
            fitted_labels (run_events ''Kmeans - K=3'' (snd (run_all lib' u1))) \<noteq>
              fitted_labels (run_events ''Kmeans - K=3'' (snd (run_all lib' u2))) \<and>
            logged_metrics (run_events ''Kmeans - K=3'' (snd (run_all lib' u1))) \<noteq>
              logged_metrics (run_events ''Kmeans - K=3'' (snd (run_all lib' u2)))"
    using demo_contract demo_clean[of 0] demo_clean[of 1] e1 e2 e3 e4 e5 by blast
  from A B2 B3 L C D E show ?thesis by blast
qed

theorem kmeans_random_state_witness:
  "\<not> list_ex raised (snd (run_all demo_lib 0)) \<and>
   \<not> list_ex raised (snd (run_all demo_lib 1)) \<and>
   seeded_kmeans_deterministic demo_lib \<and> load_iris_fixed demo_lib \<and>
   kmeans_calls (snd (run_all demo_lib 0)) =
     [(''fit_predict'', KMeans 3 (Some 42)), (''fit'', KMeans 2 None), (''fit'', KMeans 3 None)] \<and>
   seeded_kmeans_results (snd (run_all demo_lib 0)) = seeded_kmeans_results (snd (run_all demo_lib 1)) \<and>
   \<not> unseeded_kmeans_deterministic demo_lib"
proof -
  note t = kmeans_random_state[OF demo_clean demo_clean, of 0 1]
  have d: "seeded_kmeans_deterministic demo_lib \<and> load_iris_fixed demo_lib"
    using demo_contract by simp
  have k: "kmeans_calls (snd (run_all demo_lib 0)) =
     [(''fit_predict'', KMeans 3 (Some 42)), (''fit'', KMeans 2 None), (''fit'', KMeans 3 None)]"
    using t by (rule conjunct1)
  have s: "seeded_kmeans_results (snd (run_all demo_lib 0)) = seeded_kmeans_results (snd (run_all demo_lib 1))"
    using t[THEN conjunct2, THEN conjunct2, THEN conjunct2, THEN conjunct2, THEN conjunct2,
        THEN conjunct2, THEN conjunct1] d by (rule mp)
  have u: "\<not> unseeded_kmeans_deterministic demo_lib"
  proof
    assume "unseeded_kmeans_deterministic demo_lib"
    then have "fst (sklearn_fit demo_lib (KMeans 2 None) [[1]] 0) =
        fst (sklearn_fit demo_lib (KMeans 2 None) [[1]] 1)"
      unfolding unseeded_kmeans_deterministic_def by blast
    then show False by (simp add: demo_lib_def)
  qed
  from demo_clean[of 0] demo_clean[of 1] d k s u show ?thesis by blast
qed

end
